theory Spec2Isabelle
  imports Main "HOL-Library.Word" "HOL-Library.Signed_Division"
begin

section \<open>The data model of war.c\<close>

text \<open>
  The program keeps everything in heap objects reached through raw pointers, and two of
  its functions are called with pointers that may alias. The embedding therefore keeps an
  explicit store. C's \<open>int\<close> is a 32-bit word read as two's complement; \<open>size_t\<close> and
  pointers are taken as 64-bit (LP64), which only matters for a negative element count
  handed to \<open>realloc\<close>.
\<close>

type_synonym int32 = "32 word"

datatype ptr = NULL | Ptr nat

text \<open>\<open>typedef struct Territory\<close>: the five fields in declaration order.\<close>

record Territory =
  name :: ptr
  owner :: int32
  armies :: int32
  nNeighbors :: int32
  neighbors :: ptr

text \<open>\<open>typedef struct Mission\<close>.\<close>

record Mission =
  description :: ptr
  targetOwner :: int32

text \<open>
  Every way a call can fail to return normally: \<open>exit(EXIT_FAILURE)\<close> after a failed
  allocation, and the three kinds of undefined behaviour the functions can run into
  (reading or writing through a pointer that is null, dangling or out of range; \<open>free\<close> or
  \<open>realloc\<close> of something that is not a live block; overflow of a signed \<open>int\<close>).
\<close>

datatype error = Exit_failure | Invalid_access | Invalid_free | Signed_overflow

text \<open>
  What \<open>printf\<close> is called with, one constructor per format string of
  \<open>resolverAtaque\<close>; a \<open>%s\<close> argument is recorded as the pointer passed.
\<close>

datatype event =
    Rolagem int32 int32
  | Conquistado ptr
  | Perde ptr int32

text \<open>
  The store: one partial map per object type (objects of different types never overlap),
  the allocator, and the console. \<open>lim\<close> is the next address the allocator hands out and
  \<open>budget\<close> the number of allocation requests it will still satisfy; with \<open>budget = 0\<close>
  \<open>malloc\<close> and \<open>realloc\<close> return \<open>NULL\<close>.
\<close>

record memory =
  territory_cells :: "nat \<rightharpoonup> Territory"
  mission_cells :: "nat \<rightharpoonup> Mission"
  text_cells :: "nat \<rightharpoonup> string"
  territory_arrays :: "nat \<rightharpoonup> ptr list"
  mission_arrays :: "nat \<rightharpoonup> ptr list"
  lim :: nat
  budget :: nat
  console :: "event list"

definition INT_MIN :: int32 where
  "INT_MIN = - 2147483648"

definition INT_MAX :: int32 where
  "INT_MAX = 2147483647"

subsection \<open>Reading and writing through pointers\<close>

fun load_territory :: "memory \<Rightarrow> ptr \<Rightarrow> Territory option" where
  "load_territory m NULL = None"
| "load_territory m (Ptr a) = territory_cells m a"

fun load_mission :: "memory \<Rightarrow> ptr \<Rightarrow> Mission option" where
  "load_mission m NULL = None"
| "load_mission m (Ptr a) = mission_cells m a"

text \<open>Assignment to a field of \<open>*p\<close>: \<open>f\<close> is the field update.\<close>

fun update_territory :: "ptr \<Rightarrow> (Territory \<Rightarrow> Territory) \<Rightarrow> memory \<Rightarrow> error + memory" where
  "update_territory NULL f m = Inl Invalid_access"
| "update_territory (Ptr a) f m =
     (case territory_cells m a of
        None \<Rightarrow> Inl Invalid_access
      | Some T \<Rightarrow> Inr (m\<lparr>territory_cells := (territory_cells m)(a \<mapsto> f T)\<rparr>))"

fun update_mission :: "ptr \<Rightarrow> (Mission \<Rightarrow> Mission) \<Rightarrow> memory \<Rightarrow> error + memory" where
  "update_mission NULL f m = Inl Invalid_access"
| "update_mission (Ptr a) f m =
     (case mission_cells m a of
        None \<Rightarrow> Inl Invalid_access
      | Some M \<Rightarrow> Inr (m\<lparr>mission_cells := (mission_cells m)(a \<mapsto> f M)\<rparr>))"

text \<open>\<open>arr[i]\<close> for an array of \<open>Territory *\<close>, as a read and as a write.\<close>

fun read_territory_slot :: "memory \<Rightarrow> ptr \<Rightarrow> int \<Rightarrow> ptr option" where
  "read_territory_slot m NULL i = None"
| "read_territory_slot m (Ptr a) i =
     (case territory_arrays m a of
        None \<Rightarrow> None
      | Some xs \<Rightarrow> if 0 \<le> i \<and> i < int (length xs) then Some (xs ! nat i) else None)"

fun write_territory_slot :: "ptr \<Rightarrow> int \<Rightarrow> ptr \<Rightarrow> memory \<Rightarrow> error + memory" where
  "write_territory_slot NULL i v m = Inl Invalid_access"
| "write_territory_slot (Ptr a) i v m =
     (case territory_arrays m a of
        None \<Rightarrow> Inl Invalid_access
      | Some xs \<Rightarrow>
          if 0 \<le> i \<and> i < int (length xs)
          then Inr (m\<lparr>territory_arrays := (territory_arrays m)(a \<mapsto> xs[nat i := v])\<rparr>)
          else Inl Invalid_access)"

fun read_mission_slot :: "memory \<Rightarrow> ptr \<Rightarrow> int \<Rightarrow> ptr option" where
  "read_mission_slot m NULL i = None"
| "read_mission_slot m (Ptr a) i =
     (case mission_arrays m a of
        None \<Rightarrow> None
      | Some xs \<Rightarrow> if 0 \<le> i \<and> i < int (length xs) then Some (xs ! nat i) else None)"

fun write_mission_slot :: "ptr \<Rightarrow> int \<Rightarrow> ptr \<Rightarrow> memory \<Rightarrow> error + memory" where
  "write_mission_slot NULL i v m = Inl Invalid_access"
| "write_mission_slot (Ptr a) i v m =
     (case mission_arrays m a of
        None \<Rightarrow> Inl Invalid_access
      | Some xs \<Rightarrow>
          if 0 \<le> i \<and> i < int (length xs)
          then Inr (m\<lparr>mission_arrays := (mission_arrays m)(a \<mapsto> xs[nat i := v])\<rparr>)
          else Inl Invalid_access)"

text \<open>Sequencing of statements that can fail.\<close>

fun andthen :: "error + 'a \<Rightarrow> ('a \<Rightarrow> error + 'b) \<Rightarrow> error + 'b" where
  "andthen (Inl e) f = Inl e"
| "andthen (Inr x) f = f x"

subsection \<open>The allocator\<close>

text \<open>
  \<open>malloc\<close>: either no memory is left, or a fresh address is reserved. The caller puts
  the object into the map of its type.
\<close>

definition alloc :: "memory \<Rightarrow> (nat \<times> memory) option" where
  "alloc m =
     (if budget m = 0 then None
      else Some (lim m, m\<lparr>lim := Suc (lim m), budget := budget m - 1\<rparr>))"

text \<open>\<open>free\<close>, one function per object type. Freeing what is not a live block is undefined.\<close>

fun free_text :: "ptr \<Rightarrow> memory \<Rightarrow> error + memory" where
  "free_text NULL m = Inr m"
| "free_text (Ptr a) m =
     (if text_cells m a = None then Inl Invalid_free
      else Inr (m\<lparr>text_cells := (text_cells m)(a := None)\<rparr>))"

fun free_territory :: "ptr \<Rightarrow> memory \<Rightarrow> error + memory" where
  "free_territory NULL m = Inr m"
| "free_territory (Ptr a) m =
     (if territory_cells m a = None then Inl Invalid_free
      else Inr (m\<lparr>territory_cells := (territory_cells m)(a := None)\<rparr>))"

fun free_mission :: "ptr \<Rightarrow> memory \<Rightarrow> error + memory" where
  "free_mission NULL m = Inr m"
| "free_mission (Ptr a) m =
     (if mission_cells m a = None then Inl Invalid_free
      else Inr (m\<lparr>mission_cells := (mission_cells m)(a := None)\<rparr>))"

fun free_territory_array :: "ptr \<Rightarrow> memory \<Rightarrow> error + memory" where
  "free_territory_array NULL m = Inr m"
| "free_territory_array (Ptr a) m =
     (if territory_arrays m a = None then Inl Invalid_free
      else Inr (m\<lparr>territory_arrays := (territory_arrays m)(a := None)\<rparr>))"

fun free_mission_array :: "ptr \<Rightarrow> memory \<Rightarrow> error + memory" where
  "free_mission_array NULL m = Inr m"
| "free_mission_array (Ptr a) m =
     (if mission_arrays m a = None then Inl Invalid_free
      else Inr (m\<lparr>mission_arrays := (mission_arrays m)(a := None)\<rparr>))"

text \<open>
  \<open>realloc(p, sizeof(Territory * ) * count)\<close>. A negative \<open>count\<close> converts to a size no
  allocator can satisfy, so the call returns \<open>NULL\<close> and leaves the old block alone, as it
  does when no memory is left. Otherwise the block moves to a fresh address: the first
  \<open>count\<close> entries are kept, entries beyond the old length are indeterminate (\<open>NULL\<close>
  here; \<open>adicionarVizinho\<close> overwrites the only one before anything reads it), and the
  old block is released. \<open>realloc(NULL, n)\<close> is \<open>malloc(n)\<close>.
\<close>

fun realloc_territory_array :: "memory \<Rightarrow> ptr \<Rightarrow> int \<Rightarrow> error + (ptr \<times> memory)" where
  "realloc_territory_array m NULL count =
     (if count < 0 \<or> budget m = 0 then Inr (NULL, m)
      else Inr (Ptr (lim m),
                m\<lparr>territory_arrays := (territory_arrays m)(lim m \<mapsto> replicate (nat count) NULL),
                  lim := Suc (lim m), budget := budget m - 1\<rparr>))"
| "realloc_territory_array m (Ptr a) count =
     (case territory_arrays m a of
        None \<Rightarrow> Inl Invalid_free
      | Some old \<Rightarrow>
          if count < 0 \<or> budget m = 0 then Inr (NULL, m)
          else Inr (Ptr (lim m),
                    m\<lparr>territory_arrays :=
                        ((territory_arrays m)(a := None))
                          (lim m \<mapsto> take (nat count) (old @ replicate (nat count) NULL)),
                      lim := Suc (lim m), budget := budget m - 1\<rparr>))"

text \<open>
  \<open>malloc(sizeof(Mission * ) * n)\<close>, as \<open>main\<close> calls it; \<open>malloc\<close> of an array of
  \<open>Territory *\<close> is \<open>realloc_territory_array\<close> on \<open>NULL\<close>.
\<close>

definition malloc_mission_array :: "memory \<Rightarrow> nat \<Rightarrow> ptr \<times> memory" where
  "malloc_mission_array m n =
     (if budget m = 0 then (NULL, m)
      else (Ptr (lim m),
            m\<lparr>mission_arrays := (mission_arrays m)(lim m \<mapsto> replicate n NULL),
              lim := Suc (lim m), budget := budget m - 1\<rparr>))"

section \<open>The functions of war.c\<close>

subsection \<open>criarTerritorio\<close>

text \<open>
  Two allocations, the struct and the copy of the name (\<open>nm\<close> is the text the caller's
  \<open>const char *\<close> points to); either failure ends the process. The struct is local until
  it is returned, so it enters the store with all five fields written.
\<close>

definition criarTerritorio :: "memory \<Rightarrow> string \<Rightarrow> int32 \<Rightarrow> int32 \<Rightarrow> error + (ptr \<times> memory)" where
  "criarTerritorio m nm ow ar =
     (case alloc m of
        None \<Rightarrow> Inl Exit_failure
      | Some (t, m1) \<Rightarrow>
          (case alloc m1 of
             None \<Rightarrow> Inl Exit_failure
           | Some (b, m2) \<Rightarrow>
               Inr (Ptr t,
                    m2\<lparr>text_cells := (text_cells m2)(b \<mapsto> nm),
                       territory_cells := (territory_cells m2)
                         (t \<mapsto> \<lparr>name = Ptr b, owner = ow, armies = ar,
                                nNeighbors = 0, neighbors = NULL\<rparr>)\<rparr>)))"

subsection \<open>adicionarVizinho\<close>

text \<open>
  \<open>t->neighbors = realloc(t->neighbors, sizeof(Territory * ) * (t->nNeighbors + 1))\<close>, exit
  when that is \<open>NULL\<close>, then \<open>t->neighbors[t->nNeighbors++] = vizinho\<close>.
\<close>

definition adicionarVizinho :: "memory \<Rightarrow> ptr \<Rightarrow> ptr \<Rightarrow> error + memory" where
  "adicionarVizinho m t vizinho =
     (case load_territory m t of
        None \<Rightarrow> Inl Invalid_access
      | Some T \<Rightarrow>
          if nNeighbors T = INT_MAX then Inl Signed_overflow
          else
            andthen (realloc_territory_array m (neighbors T) (sint (nNeighbors T) + 1))
              (\<lambda>(p, m1).
                 if p = NULL then Inl Exit_failure
                 else
                   andthen (update_territory t (\<lambda>T. T\<lparr>neighbors := p\<rparr>) m1) (\<lambda>m2.
                   andthen (write_territory_slot p (sint (nNeighbors T)) vizinho m2) (\<lambda>m3.
                   update_territory t (\<lambda>T. T\<lparr>nNeighbors := nNeighbors T + 1\<rparr>) m3))))"

subsection \<open>criarMissao\<close>

definition criarMissao :: "memory \<Rightarrow> string \<Rightarrow> int32 \<Rightarrow> error + (ptr \<times> memory)" where
  "criarMissao m desc tgt =
     (case alloc m of
        None \<Rightarrow> Inl Exit_failure
      | Some (p, m1) \<Rightarrow>
          (case alloc m1 of
             None \<Rightarrow> Inl Exit_failure
           | Some (b, m2) \<Rightarrow>
               Inr (Ptr p,
                    m2\<lparr>text_cells := (text_cells m2)(b \<mapsto> desc),
                       mission_cells := (mission_cells m2)
                         (p \<mapsto> \<lparr>description = Ptr b, targetOwner = tgt\<rparr>)\<rparr>)))"

subsection \<open>validarAtaque\<close>

text \<open>
  The scan \<open>for (int i = 0; i < from->nNeighbors; ++i) if (from->neighbors[i] == to) { found = 1; break; }\<close>,
  started at index \<open>i\<close>; the result is \<open>found\<close>. \<open>F\<close> is \<open>*from\<close>, which the loop does not
  change. The index stays below \<open>nNeighbors\<close>, so \<open>++i\<close> cannot overflow.
\<close>

function procurar_vizinho :: "memory \<Rightarrow> Territory \<Rightarrow> ptr \<Rightarrow> int \<Rightarrow> error + int32" where
  "procurar_vizinho m F to i =
     (if i < sint (nNeighbors F) then
        (case read_territory_slot m (neighbors F) i of
           None \<Rightarrow> Inl Invalid_access
         | Some q \<Rightarrow> if q = to then Inr 1 else procurar_vizinho m F to (i + 1))
      else Inr 0)"
  by pat_completeness auto
termination
  by (relation "measure (\<lambda>(m, F, to, i). nat (sint (nNeighbors F) - i))") auto

declare procurar_vizinho.simps [simp del]

definition validarAtaque :: "memory \<Rightarrow> ptr \<Rightarrow> ptr \<Rightarrow> int32 \<Rightarrow> error + int32" where
  "validarAtaque m from to playerId =
     (if from = NULL \<or> to = NULL then Inr 0
      else
        (case load_territory m from of
           None \<Rightarrow> Inl Invalid_access
         | Some F \<Rightarrow>
             if owner F \<noteq> playerId then Inr 0
             else
               (case load_territory m to of
                  None \<Rightarrow> Inl Invalid_access
                | Some T \<Rightarrow>
                    if owner T = playerId then Inr 0
                    else if sint (armies F) < 2 then Inr 0
                    else
                      andthen (procurar_vizinho m F to 0) (\<lambda>found.
                        if found = 0 then Inr 0 else Inr 1))))"

subsection \<open>resolverAtaque\<close>

text \<open>
  \<open>rand() % 6 + 1\<close>, from the value \<open>rand()\<close> returned. C's \<open>%\<close> truncates towards
  zero, which is \<open>smod\<close>.
\<close>

definition dado :: "int32 \<Rightarrow> int32" where
  "dado r = word_of_int (sint r smod 6) + 1"

definition printf :: "event \<Rightarrow> memory \<Rightarrow> memory" where
  "printf e m = m\<lparr>console := console m @ [e]\<rparr>"

text \<open>\<open>p->armies -= 1\<close>.\<close>

definition decrement_armies :: "ptr \<Rightarrow> memory \<Rightarrow> error + memory" where
  "decrement_armies p m =
     (case load_territory m p of
        None \<Rightarrow> Inl Invalid_access
      | Some T \<Rightarrow>
          if armies T = INT_MIN then Inl Signed_overflow
          else update_territory p (\<lambda>T. T\<lparr>armies := armies T - 1\<rparr>) m)"

text \<open>
  \<open>r1\<close> and \<open>r2\<close> are what the two calls of \<open>rand()\<close> return. Each statement reads and
  writes the store, so that a call with \<open>from == to\<close> behaves as the C does.
\<close>

definition resolverAtaque :: "memory \<Rightarrow> ptr \<Rightarrow> ptr \<Rightarrow> int32 \<Rightarrow> int32 \<Rightarrow> error + memory" where
  "resolverAtaque m from to r1 r2 =
     (let attackRoll = dado r1;
          defendRoll = dado r2;
          m0 = printf (Rolagem attackRoll defendRoll) m
      in
        if sint defendRoll < sint attackRoll then
          andthen (decrement_armies to m0) (\<lambda>m1.
            case load_territory m1 to of
              None \<Rightarrow> Inl Invalid_access
            | Some T \<Rightarrow>
                if sint (armies T) \<le> 0 then
                  (let m2 = printf (Conquistado (name T)) m1 in
                   case load_territory m2 from of
                     None \<Rightarrow> Inl Invalid_access
                   | Some F \<Rightarrow>
                       andthen (update_territory to (\<lambda>T. T\<lparr>owner := owner F\<rparr>) m2) (\<lambda>m3.
                       andthen (decrement_armies from m3) (\<lambda>m4.
                       update_territory to (\<lambda>T. T\<lparr>armies := 1\<rparr>) m4)))
                else Inr (printf (Perde (name T) (armies T)) m1))
        else
          andthen (decrement_armies from m0) (\<lambda>m1.
            case load_territory m1 from of
              None \<Rightarrow> Inl Invalid_access
            | Some F \<Rightarrow> Inr (printf (Perde (name F) (armies F)) m1)))"

subsection \<open>liberarMemoria\<close>

text \<open>The body of the first loop, for slot \<open>i\<close> of the array \<open>territories\<close>.\<close>

definition liberar_territorio :: "ptr \<Rightarrow> int \<Rightarrow> memory \<Rightarrow> error + memory" where
  "liberar_territorio territories i m =
     (case read_territory_slot m territories i of
        None \<Rightarrow> Inl Invalid_access
      | Some t \<Rightarrow>
          if t = NULL then Inr m
          else
            (case load_territory m t of
               None \<Rightarrow> Inl Invalid_access
             | Some T \<Rightarrow>
                 andthen
                   (if name T \<noteq> NULL
                    then andthen (free_text (name T) m)
                           (update_territory t (\<lambda>T. T\<lparr>name := NULL\<rparr>))
                    else Inr m) (\<lambda>m1.
                 andthen
                   (if neighbors T \<noteq> NULL
                    then andthen (free_territory_array (neighbors T) m1)
                           (update_territory t (\<lambda>T. T\<lparr>neighbors := NULL\<rparr>))
                    else Inr m1) (\<lambda>m2.
                 andthen (free_territory t m2) (\<lambda>m3.
                 write_territory_slot territories i NULL m3)))))"

function liberar_territorios :: "ptr \<Rightarrow> int \<Rightarrow> int \<Rightarrow> memory \<Rightarrow> error + memory" where
  "liberar_territorios territories nTerritories i m =
     (if i < nTerritories then
        (case liberar_territorio territories i m of
           Inl e \<Rightarrow> Inl e
         | Inr m' \<Rightarrow> liberar_territorios territories nTerritories (i + 1) m')
      else Inr m)"
  by pat_completeness auto
termination
  by (relation "measure (\<lambda>(territories, nTerritories, i, m). nat (nTerritories - i))") auto

declare liberar_territorios.simps [simp del]

text \<open>The body of the second loop, for slot \<open>j\<close> of the array \<open>missions\<close>.\<close>

definition liberar_missao :: "ptr \<Rightarrow> int \<Rightarrow> memory \<Rightarrow> error + memory" where
  "liberar_missao missions j m =
     (case read_mission_slot m missions j of
        None \<Rightarrow> Inl Invalid_access
      | Some p \<Rightarrow>
          if p = NULL then Inr m
          else
            (case load_mission m p of
               None \<Rightarrow> Inl Invalid_access
             | Some M \<Rightarrow>
                 andthen
                   (if description M \<noteq> NULL
                    then andthen (free_text (description M) m)
                           (update_mission p (\<lambda>M. M\<lparr>description := NULL\<rparr>))
                    else Inr m) (\<lambda>m1.
                 andthen (free_mission p m1) (\<lambda>m2.
                 write_mission_slot missions j NULL m2))))"

function liberar_missoes :: "ptr \<Rightarrow> int \<Rightarrow> int \<Rightarrow> memory \<Rightarrow> error + memory" where
  "liberar_missoes missions nMissions j m =
     (if j < nMissions then
        (case liberar_missao missions j m of
           Inl e \<Rightarrow> Inl e
         | Inr m' \<Rightarrow> liberar_missoes missions nMissions (j + 1) m')
      else Inr m)"
  by pat_completeness auto
termination
  by (relation "measure (\<lambda>(missions, nMissions, j, m). nat (nMissions - j))") auto

declare liberar_missoes.simps [simp del]

text \<open>
  The two guarded blocks in sequence. The assignments \<open>territories = NULL\<close> and
  \<open>missions = NULL\<close> change the function's own parameters only.
\<close>

definition liberarMemoria :: "memory \<Rightarrow> ptr \<Rightarrow> int32 \<Rightarrow> ptr \<Rightarrow> int32 \<Rightarrow> error + memory" where
  "liberarMemoria m territories nTerritories missions nMissions =
     andthen
       (if territories \<noteq> NULL
        then andthen (liberar_territorios territories (sint nTerritories) 0 m)
               (free_territory_array territories)
        else Inr m) (\<lambda>m1.
     if missions \<noteq> NULL
     then andthen (liberar_missoes missions (sint nMissions) 0 m1)
            (free_mission_array missions)
     else Inr m1)"

subsection \<open>main, up to the attack\<close>

text \<open>
  The calls \<open>main\<close> makes before it validates the attack: the two registries, three
  territories, four directed edges and two missions. It returns the two registry
  pointers with the store. A failed \<open>malloc\<close> ends the process here as well.
\<close>

definition main_setup :: "memory \<Rightarrow> error + (ptr \<times> ptr \<times> memory)" where
  "main_setup m =
     andthen (realloc_territory_array m NULL 3) (\<lambda>(territories, m).
     if territories = NULL then Inl Exit_failure else
     andthen (criarTerritorio m (''Amaz'' @ [CHR 0xC3, CHR 0xB4] @ ''nia'') 1 5) (\<lambda>(t0, m).
     andthen (write_territory_slot territories 0 t0 m) (\<lambda>m.
     andthen (criarTerritorio m (''Sert'' @ [CHR 0xC3, CHR 0xA3] @ ''o'') 2 3) (\<lambda>(t1, m).
     andthen (write_territory_slot territories 1 t1 m) (\<lambda>m.
     andthen (criarTerritorio m ''Litoral'' 0 2) (\<lambda>(t2, m).
     andthen (write_territory_slot territories 2 t2 m) (\<lambda>m.
     andthen (adicionarVizinho m t0 t1) (\<lambda>m.
     andthen (adicionarVizinho m t1 t0) (\<lambda>m.
     andthen (adicionarVizinho m t1 t2) (\<lambda>m.
     andthen (adicionarVizinho m t2 t1) (\<lambda>m.
     (case malloc_mission_array m 2 of (missions, m) \<Rightarrow>
     if missions = NULL then Inl Exit_failure else
     andthen (criarMissao m (''Conquistar 3 territ'' @ [CHR 0xC3, CHR 0xB3] @ ''rios da regi''
                 @ [CHR 0xC3, CHR 0xA3] @ ''o Norte'') 0) (\<lambda>(m0, m).
     andthen (write_mission_slot missions 0 m0 m) (\<lambda>m.
     andthen (criarMissao m ''Eliminar jogador 2'' 2) (\<lambda>(m1, m).
     andthen (write_mission_slot missions 1 m1 m) (\<lambda>m.
     Inr (territories, missions, m)))))))))))))))))"

section \<open>Observations on the store\<close>

text \<open>
  The neighbour sequence of a territory \<open>T\<close>: the first \<open>nNeighbors\<close> entries of the
  array \<open>neighbors\<close> points to. It is \<open>None\<close> when the count promises entries that the
  store does not hold.
\<close>

definition neighbor_seq :: "memory \<Rightarrow> Territory \<Rightarrow> ptr list option" where
  "neighbor_seq m T =
     (if sint (nNeighbors T) \<le> 0 then Some []
      else
        (case neighbors T of
           NULL \<Rightarrow> None
         | Ptr a \<Rightarrow>
             (case territory_arrays m a of
                None \<Rightarrow> None
              | Some xs \<Rightarrow>
                  if nat (sint (nNeighbors T)) \<le> length xs
                  then Some (take (nat (sint (nNeighbors T))) xs)
                  else None)))"

definition neighbor_list :: "memory \<Rightarrow> ptr \<Rightarrow> ptr list option" where
  "neighbor_list m p =
     (case load_territory m p of None \<Rightarrow> None | Some T \<Rightarrow> neighbor_seq m T)"

text \<open>
  What \<open>adicionarVizinho\<close> needs of the territory it extends: a count that is not
  negative, and a \<open>neighbors\<close> field that is \<open>NULL\<close> with count 0 or a live block handed
  out by the allocator and long enough for the count.
\<close>

definition neighbors_ok :: "memory \<Rightarrow> Territory \<Rightarrow> bool" where
  "neighbors_ok m T =
     (0 \<le> sint (nNeighbors T) \<and>
      (case neighbors T of
         NULL \<Rightarrow> nNeighbors T = 0
       | Ptr a \<Rightarrow>
           a < lim m \<and>
           (case territory_arrays m a of
              None \<Rightarrow> False
            | Some xs \<Rightarrow> nat (sint (nNeighbors T)) \<le> length xs)))"

text \<open>The fields of a territory that combat has no assignment to.\<close>

definition fixed_fields :: "Territory \<Rightarrow> ptr \<times> int32 \<times> ptr" where
  "fixed_fields T = (name T, nNeighbors T, neighbors T)"

text \<open>The events printed since the console held \<open>old\<close>.\<close>

definition printed_since :: "event list \<Rightarrow> memory \<Rightarrow> event list" where
  "printed_since old m = drop (length old) (console m)"

text \<open>
  \<open>touches_only S m m'\<close>: from \<open>m\<close> to \<open>m'\<close> nothing but the console and the territories
  behind the pointers in \<open>S\<close> has changed, and of those only \<open>owner\<close> and \<open>armies\<close>.
\<close>

definition touches_only :: "ptr set \<Rightarrow> memory \<Rightarrow> memory \<Rightarrow> bool" where
  "touches_only S m m' \<longleftrightarrow>
     mission_cells m' = mission_cells m \<and> text_cells m' = text_cells m \<and>
     territory_arrays m' = territory_arrays m \<and> mission_arrays m' = mission_arrays m \<and>
     lim m' = lim m \<and> budget m' = budget m \<and>
     (\<forall>q. q \<notin> S \<longrightarrow> load_territory m' q = load_territory m q) \<and>
     (\<forall>q. map_option fixed_fields (load_territory m' q) =
          map_option fixed_fields (load_territory m q))"

text \<open>
  The text blocks the missions of a store point to as descriptions, and those its
  territories point to as names.
\<close>

definition description_blocks :: "memory \<Rightarrow> nat set" where
  "description_blocks m = {a. \<exists>q M. mission_cells m q = Some M \<and> description M = Ptr a}"

definition name_blocks :: "memory \<Rightarrow> nat set" where
  "name_blocks m = {a. \<exists>q T. territory_cells m q = Some T \<and> name T = Ptr a}"

text \<open>
  \<open>releases_missions m m'\<close>: from \<open>m\<close> to \<open>m'\<close> the territories, their arrays, the
  allocator and the console are unchanged, no mission has a description it did not have,
  and a text block is either unchanged or gone, and gone only if it was the description
  of a mission. \<open>releases_territories\<close> is the same with the two registries exchanged.
\<close>

definition releases_missions :: "memory \<Rightarrow> memory \<Rightarrow> bool" where
  "releases_missions m m' \<longleftrightarrow>
     territory_cells m' = territory_cells m \<and> territory_arrays m' = territory_arrays m \<and>
     lim m' = lim m \<and> budget m' = budget m \<and> console m' = console m \<and>
     description_blocks m' \<subseteq> description_blocks m \<and>
     (\<forall>a. text_cells m' a = text_cells m a \<or>
          text_cells m' a = None \<and> a \<in> description_blocks m)"

definition releases_territories :: "memory \<Rightarrow> memory \<Rightarrow> bool" where
  "releases_territories m m' \<longleftrightarrow>
     mission_cells m' = mission_cells m \<and> mission_arrays m' = mission_arrays m \<and>
     lim m' = lim m \<and> budget m' = budget m \<and> console m' = console m \<and>
     name_blocks m' \<subseteq> name_blocks m \<and>
     (\<forall>a. text_cells m' a = text_cells m a \<or>
          text_cells m' a = None \<and> a \<in> name_blocks m)"

section \<open>Example states\<close>

text \<open>The store at program start, with room for 20 allocations.\<close>

definition vazio :: memory where
  "vazio = \<lparr>territory_cells = Map.empty, mission_cells = Map.empty, text_cells = Map.empty,
            territory_arrays = Map.empty, mission_arrays = Map.empty,
            lim = 0, budget = 20, console = []\<rparr>"

text \<open>
  The store \<open>main\<close> has built when it reaches the attack: the registry of three
  territories at address 0, Amazonia (player 1, 5 armies) at 1, Sertao (player 2, 3
  armies) at 3, Litoral (neutral, 2 armies) at 5, their neighbour arrays at 7, 9 and 10,
  the registry of two missions at 11 and the missions at 12 and 14. The names are the
  UTF-8 bytes of the source's literals.
\<close>

definition exemplo :: memory where
  "exemplo =
     \<lparr>territory_cells =
        [1 \<mapsto> \<lparr>name = Ptr 2, owner = 1, armies = 5, nNeighbors = 1, neighbors = Ptr 7\<rparr>,
         3 \<mapsto> \<lparr>name = Ptr 4, owner = 2, armies = 3, nNeighbors = 2, neighbors = Ptr 9\<rparr>,
         5 \<mapsto> \<lparr>name = Ptr 6, owner = 0, armies = 2, nNeighbors = 1, neighbors = Ptr 10\<rparr>],
      mission_cells =
        [12 \<mapsto> \<lparr>description = Ptr 13, targetOwner = 0\<rparr>,
         14 \<mapsto> \<lparr>description = Ptr 15, targetOwner = 2\<rparr>],
      text_cells =
        [2 \<mapsto> ''Amaz'' @ [CHR 0xC3, CHR 0xB4] @ ''nia'',
         4 \<mapsto> ''Sert'' @ [CHR 0xC3, CHR 0xA3] @ ''o'',
         6 \<mapsto> ''Litoral'',
         13 \<mapsto> ''Conquistar 3 territ'' @ [CHR 0xC3, CHR 0xB3] @ ''rios da regi''
                 @ [CHR 0xC3, CHR 0xA3] @ ''o Norte'',
         15 \<mapsto> ''Eliminar jogador 2''],
      territory_arrays =
        [0 \<mapsto> [Ptr 1, Ptr 3, Ptr 5],
         7 \<mapsto> [Ptr 3],
         9 \<mapsto> [Ptr 1, Ptr 5],
         10 \<mapsto> [Ptr 3]],
      mission_arrays = [11 \<mapsto> [Ptr 12, Ptr 14]],
      lim = 16,
      budget = 4,
      console = []\<rparr>"

text \<open>The same store with Sertao down to its last army.\<close>

definition exemplo_cerco :: memory where
  "exemplo_cerco =
     exemplo\<lparr>territory_cells := (territory_cells exemplo)
       (3 \<mapsto> \<lparr>name = Ptr 4, owner = 2, armies = 1, nNeighbors = 2, neighbors = Ptr 9\<rparr>)\<rparr>"

text \<open>
  The store after \<open>criarTerritorio("Deserto", 0, -1)\<close> in the example, and the store after
  \<open>adicionarVizinho\<close> has made Amazonia its own neighbour.
\<close>

definition exemplo_negativo :: memory where
  "exemplo_negativo =
     exemplo\<lparr>text_cells := (text_cells exemplo)(17 \<mapsto> ''Deserto''),
             territory_cells := (territory_cells exemplo)
               (16 \<mapsto> \<lparr>name = Ptr 17, owner = 0, armies = - 1,
                        nNeighbors = 0, neighbors = NULL\<rparr>),
             lim := 18, budget := 2\<rparr>"

definition exemplo_laco :: memory where
  "exemplo_laco =
     exemplo\<lparr>territory_arrays := ((territory_arrays exemplo)(7 := None))(16 \<mapsto> [Ptr 3, Ptr 1]),
             lim := 17, budget := 3,
             territory_cells := (territory_cells exemplo)
               (1 \<mapsto> \<lparr>name = Ptr 2, owner = 1, armies = 5,
                       nNeighbors = 2, neighbors = Ptr 16\<rparr>)\<rparr>"

text \<open>
  The example after \<open>liberarMemoria\<close> with the missions alone, and with the territories
  alone.
\<close>

definition exemplo_sem_missoes :: memory where
  "exemplo_sem_missoes =
     exemplo\<lparr>mission_cells := Map.empty, mission_arrays := Map.empty,
             text_cells :=
               [2 \<mapsto> ''Amaz'' @ [CHR 0xC3, CHR 0xB4] @ ''nia'',
                4 \<mapsto> ''Sert'' @ [CHR 0xC3, CHR 0xA3] @ ''o'',
                6 \<mapsto> ''Litoral'']\<rparr>"

definition exemplo_sem_territorios :: memory where
  "exemplo_sem_territorios =
     exemplo\<lparr>territory_cells := Map.empty, territory_arrays := Map.empty,
             text_cells :=
               [13 \<mapsto> ''Conquistar 3 territ'' @ [CHR 0xC3, CHR 0xB3] @ ''rios da regi''
                        @ [CHR 0xC3, CHR 0xA3] @ ''o Norte'',
                15 \<mapsto> ''Eliminar jogador 2'']\<rparr>"

section \<open>Machine integers\<close>

lemma sint_eq_INT_MIN: "((x::int32) = INT_MIN) = (sint x = - 2147483648)"
proof
  assume "x = INT_MIN" then show "sint x = - 2147483648" by (simp add: INT_MIN_def)
next
  assume "sint x = - 2147483648"
  then have "sint x = sint INT_MIN" by (simp add: INT_MIN_def)
  then show "x = INT_MIN" by (rule signed_word_eqI)
qed

lemma sint_dec: 
  assumes "(x::int32) \<noteq> INT_MIN" shows "sint (x - 1) = sint x - 1"
proof -
  have lo: "- 2147483648 \<le> sint x" using sint_ge [of x] by simp
  have hi: "sint x < 2147483648" using sint_lt [of x] by simp
  have ne: "sint x \<noteq> - 2147483648" using assms by (simp add: sint_eq_INT_MIN)
  have "sint (x - 1) = signed_take_bit 31 (sint x - 1)"
    by (simp add: sint_word_ariths)
  also have "\<dots> = sint x - 1"
    using lo hi ne by (intro signed_take_bit_int_eq_self) simp_all
  finally show ?thesis .
qed

lemma sint_eq_INT_MAX: "((x::int32) = INT_MAX) = (sint x = 2147483647)"
proof
  assume "x = INT_MAX" then show "sint x = 2147483647" by (simp add: INT_MAX_def)
next
  assume "sint x = 2147483647"
  then have "sint x = sint INT_MAX" by (simp add: INT_MAX_def)
  then show "x = INT_MAX" by (rule signed_word_eqI)
qed

lemma sint_inc: 
  assumes "(x::int32) \<noteq> INT_MAX" shows "sint (x + 1) = sint x + 1"
proof -
  have lo: "- 2147483648 \<le> sint x" using sint_ge [of x] by simp
  have hi: "sint x < 2147483648" using sint_lt [of x] by simp
  have ne: "sint x \<noteq> 2147483647" using assms by (simp add: sint_eq_INT_MAX)
  have "sint (x + 1) = signed_take_bit 31 (sint x + 1)"
    by (simp add: sint_word_ariths)
  also have "\<dots> = sint x + 1"
    using lo hi ne by (intro signed_take_bit_int_eq_self) simp_all
  finally show ?thesis .
qed

text \<open>A value returned by \<open>rand()\<close> is not negative, so the roll lies in 1..6.\<close>

lemma dado_range:
  assumes "0 \<le> sint r"
  shows "1 \<le> sint (dado r) \<and> sint (dado r) \<le> 6"
proof -
  have a: "0 \<le> sint r smod 6" "sint r smod 6 < 6"
    using assms smod_int_compares(1,2) [of "sint r" 6] by simp_all
  have "sint (dado r) = signed_take_bit 31 (sint r smod 6 + 1)"
    unfolding dado_def
    using a by (simp add: sint_word_ariths sint_sbintrunc' signed_take_bit_int_eq_self)
  also have "\<dots> = sint r smod 6 + 1"
    using a by (intro signed_take_bit_int_eq_self) simp_all
  finally show ?thesis using a by simp
qed

lemma dado_values: "dado 0 = 1" "dado 2 = 3" "dado 4 = 5" "dado 5 = 6"
  by (simp_all add: dado_def)

text \<open>Every roll in 1..6 is the roll of some value \<open>rand()\<close> can return.\<close>

lemma dado_onto:
  assumes "1 \<le> sint a" "sint a \<le> 6"
  shows "dado (a - 1) = a"
proof -
  have ne: "a \<noteq> INT_MIN" using assms by (auto simp: INT_MIN_def)
  have s: "sint (a - 1) = sint a - 1" by (rule sint_dec [OF ne])
  have "(sint a - 1) smod 6 = sint a - 1"
    using assms by (simp add: smod_int_alt_def sgn_if)
  then have "dado (a - 1) = word_of_int (sint a - 1) + 1" by (simp add: dado_def s)
  also have "\<dots> = a" by simp
  finally show ?thesis .
qed

section \<open>Statements on the store\<close>

lemma andthen_eq_Inr: "andthen x f = Inr y \<longleftrightarrow> (\<exists>z. x = Inr z \<and> f z = Inr y)"
  by (cases x) auto

lemma update_territory_Inr:
  "update_territory p f m = Inr m' \<Longrightarrow>
   \<exists>a X. p = Ptr a \<and> territory_cells m a = Some X \<and>
         m' = m\<lparr>territory_cells := (territory_cells m)(a \<mapsto> f X)\<rparr>"
  by (cases p) (auto split: option.splits)

lemma decrement_armies_Inr:
  "decrement_armies p m = Inr m' \<Longrightarrow>
   \<exists>X. load_territory m p = Some X \<and> armies X \<noteq> INT_MIN \<and>
       update_territory p (\<lambda>T. T\<lparr>armies := armies T - 1\<rparr>) m = Inr m'"
  by (auto simp: decrement_armies_def split: option.splits if_splits)

lemma load_territory_printf [simp]: "load_territory (printf e m) q = load_territory m q"
  by (cases q) (simp_all add: printf_def)

lemma load_territory_update:
  assumes "update_territory p f m = Inr m'"
  shows "load_territory m' q = (if q = p then map_option f (load_territory m p) else load_territory m q)"
proof -
  from update_territory_Inr [OF assms] obtain a X where
    "p = Ptr a" "territory_cells m a = Some X"
    "m' = m\<lparr>territory_cells := (territory_cells m)(a \<mapsto> f X)\<rparr>" by blast
  then show ?thesis by (cases q) auto
qed

lemma touches_only_printf: "touches_only S m m' \<Longrightarrow> touches_only S m (printf e m')"
  by (simp add: touches_only_def) (simp add: printf_def)

lemma touches_only_printf_left: "touches_only S (printf e m) m' \<Longrightarrow> touches_only S m m'"
  by (simp add: touches_only_def) (simp add: printf_def)

lemma touches_only_refl: "touches_only S m m"
  by (simp add: touches_only_def)

lemma touches_only_trans:
  "touches_only S m m1 \<Longrightarrow> touches_only S' m1 m2 \<Longrightarrow> touches_only (S \<union> S') m m2"
  by (simp add: touches_only_def)

lemma touches_only_update:
  assumes "update_territory p f m = Inr m'" and "\<And>X. fixed_fields (f X) = fixed_fields X"
  shows "touches_only {p} m m'"
proof -
  from update_territory_Inr [OF assms(1)] obtain a X where *:
    "p = Ptr a" "territory_cells m a = Some X"
    "m' = m\<lparr>territory_cells := (territory_cells m)(a \<mapsto> f X)\<rparr>" by blast
  have "map_option fixed_fields (load_territory m' q) =
        map_option fixed_fields (load_territory m q)" for q
    using * assms(2) by (cases q) auto
  moreover have "q \<notin> {p} \<Longrightarrow> load_territory m' q = load_territory m q" for q
    using * by (cases q) auto
  ultimately show ?thesis using *(3) by (simp add: touches_only_def)
qed

lemma touches_only_decrement:
  "decrement_armies p m = Inr m' \<Longrightarrow> touches_only {p} m m'"
  by (drule decrement_armies_Inr) (auto intro: touches_only_update simp: fixed_fields_def)

lemma neighbor_seq_cong:
  "territory_arrays m' = territory_arrays m \<Longrightarrow> fixed_fields X' = fixed_fields X \<Longrightarrow>
   neighbor_seq m' X' = neighbor_seq m X"
  by (auto simp: neighbor_seq_def fixed_fields_def split: ptr.splits option.splits)

lemma touches_only_mono: "touches_only S m m' \<Longrightarrow> S \<subseteq> S' \<Longrightarrow> touches_only S' m m'"
  unfolding touches_only_def by blast

lemma touches_only_step:
  "touches_only S m m1 \<Longrightarrow> touches_only S' m1 m2 \<Longrightarrow> S \<subseteq> R \<Longrightarrow> S' \<subseteq> R \<Longrightarrow>
   touches_only R m m2"
  unfolding touches_only_def by (simp add: subset_iff) metis

section \<open>The example is what main builds\<close>

lemma replicate_small: "replicate 2 x = [x, x]" "replicate 3 x = [x, x, x]"
  by (simp_all add: numeral_2_eq_2 numeral_3_eq_3)

lemma update_third: "[a, b, c][2 := v] = [a, b, v]"
  by (simp add: numeral_2_eq_2)

lemma main_setup_exemplo: "main_setup vazio = Inr (Ptr 0, Ptr 11, exemplo)"
  by (simp add: main_setup_def vazio_def exemplo_def criarTerritorio_def criarMissao_def alloc_def
      adicionarVizinho_def malloc_mission_array_def INT_MAX_def fun_eq_iff
      replicate_small update_third)

section \<open>The attack validator\<close>

lemma neighbor_seq_length:
  "neighbor_seq m T = Some ns \<Longrightarrow> int (length ns) = max 0 (sint (nNeighbors T))"
  by (auto simp: neighbor_seq_def split: if_splits ptr.splits option.splits)

lemma neighbor_seq_read:
  assumes "neighbor_seq m T = Some ns" "0 \<le> i" "i < sint (nNeighbors T)"
  shows "read_territory_slot m (neighbors T) i = Some (ns ! nat i)"
  using assms
  by (auto simp: neighbor_seq_def split: if_splits ptr.splits option.splits)

lemma procurar_vizinho_drop:
  "neighbor_seq m F = Some ns \<Longrightarrow> 0 \<le> i \<Longrightarrow>
   procurar_vizinho m F to i = Inr (if to \<in> set (drop (nat i) ns) then 1 else 0)"
proof (induction m F to i rule: procurar_vizinho.induct)
  case (1 m F to i)
  note len = neighbor_seq_length [OF "1.prems"(1)]
  show ?case
  proof (cases "i < sint (nNeighbors F)")
    case False
    with len "1.prems"(2) have "drop (nat i) ns = []" by auto
    with False show ?thesis by (subst procurar_vizinho.simps) simp
  next
    case True
    have rd: "read_territory_slot m (neighbors F) i = Some (ns ! nat i)"
      using neighbor_seq_read [OF "1.prems"(1) "1.prems"(2) True] .
    have lt: "nat i < length ns" using True len "1.prems"(2) by auto
    have dr: "drop (nat i) ns = ns ! nat i # drop (nat (i + 1)) ns"
      using Cons_nth_drop_Suc [OF lt] "1.prems"(2) by (simp add: nat_add_distrib)
    show ?thesis
    proof (cases "ns ! nat i = to")
      case True
      with \<open>i < sint (nNeighbors F)\<close> rd dr show ?thesis
        by (subst procurar_vizinho.simps) simp
    next
      case False
      have "procurar_vizinho m F to (i + 1) =
            Inr (if to \<in> set (drop (nat (i + 1)) ns) then 1 else 0)"
        using "1.IH" [OF True rd False "1.prems"(1)] "1.prems"(2) by simp
      with False True rd dr show ?thesis
        by (subst procurar_vizinho.simps) auto
    qed
  qed
qed

text \<open>
  Claim C1. \<open>validarAtaque\<close> answers 1 exactly when both pointers are non-null, the
  attacker \<open>p\<close> owns \<open>from\<close>, does not own \<open>to\<close>, \<open>from\<close> holds at least 2 armies and
  \<open>to\<close> occurs in the neighbour sequence of \<open>from\<close>; in every other case it answers 0.
  The pointers are null or point to live territories \<open>F\<close> and \<open>T\<close>, and the neighbour
  array of \<open>from\<close> holds the entries its count promises.
\<close>

theorem validarAtaque_iff:
  assumes "from = NULL \<or> load_territory m from = Some F"
    and "to = NULL \<or> load_territory m to = Some T"
    and "from \<noteq> NULL \<longrightarrow> neighbor_seq m F = Some ns"
  shows "validarAtaque m from to p =
         Inr (if from \<noteq> NULL \<and> to \<noteq> NULL \<and> owner F = p \<and> owner T \<noteq> p \<and>
                 2 \<le> sint (armies F) \<and> to \<in> set ns
              then 1 else 0)"
proof (cases "from = NULL \<or> to = NULL")
  case True
  then show ?thesis by (auto simp: validarAtaque_def)
next
  case False
  with assms have F: "load_territory m from = Some F" and T: "load_territory m to = Some T"
    and ns: "neighbor_seq m F = Some ns" by auto
  have "procurar_vizinho m F to 0 = Inr (if to \<in> set ns then 1 else 0)"
    using procurar_vizinho_drop [OF ns, of 0 to] by simp
  with False F T show ?thesis
    by (simp add: validarAtaque_def)
qed

theorem validarAtaque_iff_witness:
  "validarAtaque exemplo (Ptr 1) (Ptr 3) 1 = Inr 1 \<and>
   validarAtaque exemplo (Ptr 1) (Ptr 5) 1 = Inr 0 \<and>
   validarAtaque exemplo (Ptr 1) NULL 1 = Inr 0"
proof -
  let ?F = "\<lparr>name = Ptr 2, owner = 1, armies = 5, nNeighbors = 1, neighbors = Ptr 7\<rparr>"
  let ?T = "\<lparr>name = Ptr 4, owner = 2, armies = 3, nNeighbors = 2, neighbors = Ptr 9\<rparr>"
  let ?L = "\<lparr>name = Ptr 6, owner = 0, armies = 2, nNeighbors = 1, neighbors = Ptr 10\<rparr>"
  have F: "Ptr 1 = NULL \<or> load_territory exemplo (Ptr 1) = Some ?F"
    by (simp add: exemplo_def)
  have T: "Ptr 3 = NULL \<or> load_territory exemplo (Ptr 3) = Some ?T"
    by (simp add: exemplo_def)
  have L: "Ptr 5 = NULL \<or> load_territory exemplo (Ptr 5) = Some ?L"
    by (simp add: exemplo_def)
  have N: "NULL = NULL \<or> load_territory exemplo NULL = Some ?L"
    by simp
  have ns: "Ptr 1 \<noteq> NULL \<longrightarrow> neighbor_seq exemplo ?F = Some [Ptr 3]"
    by (simp add: exemplo_def neighbor_seq_def)
  show ?thesis
    using validarAtaque_iff [OF F T ns, of 1] validarAtaque_iff [OF F L ns, of 1]
      validarAtaque_iff [OF F N ns, of 1]
    by simp
qed

text \<open>
  Claim C10. An attack of a territory on itself is never accepted, whatever the player:
  the answer is never 1, and it is 0 as soon as the pointer is null or live.
\<close>

theorem validarAtaque_self:
  "validarAtaque m t t p \<noteq> Inr 1 \<and>
   (t = NULL \<or> load_territory m t \<noteq> None \<longrightarrow> validarAtaque m t t p = Inr 0)"
  by (auto simp: validarAtaque_def split: option.splits)

theorem validarAtaque_self_witness:
  "validarAtaque exemplo (Ptr 1) (Ptr 1) 1 = Inr 0 \<and>
   validarAtaque exemplo (Ptr 1) (Ptr 1) 2 = Inr 0 \<and>
   validarAtaque exemplo NULL NULL 0 = Inr 0"
proof -
  have "load_territory exemplo (Ptr 1) \<noteq> None" by (simp add: exemplo_def)
  then show ?thesis
    using validarAtaque_self [of exemplo "Ptr 1" 1] validarAtaque_self [of exemplo "Ptr 1" 2]
      validarAtaque_self [of exemplo NULL 0]
    by simp
qed

section \<open>Combat\<close>

text \<open>
  The three outcomes of a combat between two distinct live territories. The first, the
  defender's win, reads and writes \<open>from\<close> only and is the same when \<open>to\<close> is \<open>from\<close>:
  the one territory then loses the army as attacker, so that \<open>to\<close> does change.
\<close>

lemma resolverAtaque_defesa:
  assumes "territory_cells m a = Some F"
    and "armies F \<noteq> INT_MIN"
    and "\<not> sint (dado r2) < sint (dado r1)"
  shows "resolverAtaque m (Ptr a) (Ptr b) r1 r2 =
         Inr (m\<lparr>territory_cells := (territory_cells m)(a \<mapsto> F\<lparr>armies := armies F - 1\<rparr>),
                console := console m @ [Rolagem (dado r1) (dado r2),
                                       Perde (name F) (armies F - 1)]\<rparr>)"
  using assms
  by (simp add: resolverAtaque_def Let_def decrement_armies_def printf_def)

lemma resolverAtaque_perda:
  assumes "territory_cells m b = Some T" "a \<noteq> b"
    and "armies T \<noteq> INT_MIN"
    and "sint (dado r2) < sint (dado r1)" and "1 < sint (armies T)"
  shows "resolverAtaque m (Ptr a) (Ptr b) r1 r2 =
         Inr (m\<lparr>territory_cells := (territory_cells m)(b \<mapsto> T\<lparr>armies := armies T - 1\<rparr>),
                console := console m @ [Rolagem (dado r1) (dado r2),
                                       Perde (name T) (armies T - 1)]\<rparr>)"
  using assms
  by (simp add: resolverAtaque_def Let_def decrement_armies_def printf_def sint_dec)

lemma resolverAtaque_conquista:
  assumes "territory_cells m a = Some F" "territory_cells m b = Some T" "a \<noteq> b"
    and "armies F \<noteq> INT_MIN" and "armies T \<noteq> INT_MIN"
    and "sint (dado r2) < sint (dado r1)" and "sint (armies T) \<le> 1"
  shows "resolverAtaque m (Ptr a) (Ptr b) r1 r2 =
         Inr (m\<lparr>territory_cells := (territory_cells m)
                  (a \<mapsto> F\<lparr>armies := armies F - 1\<rparr>,
                   b \<mapsto> T\<lparr>owner := owner F, armies := 1\<rparr>),
                console := console m @ [Rolagem (dado r1) (dado r2),
                                       Conquistado (name T)]\<rparr>)"
  using assms
  by (simp add: resolverAtaque_def Let_def decrement_armies_def printf_def sint_dec
      fun_upd_twist)

text \<open>
  The same three outcomes for pointers: what the caller finds behind \<open>from\<close> and \<open>to\<close>
  afterwards, and what was printed.
\<close>

lemma resolverAtaque_cases:
  assumes F: "load_territory m from = Some F" and T: "load_territory m to = Some T"
    and ne: "from \<noteq> to"
    and minF: "armies F \<noteq> INT_MIN" and minT: "armies T \<noteq> INT_MIN"
  obtains
    (defesa) m' where
      "\<not> sint (dado r2) < sint (dado r1)"
      "resolverAtaque m from to r1 r2 = Inr m'"
      "load_territory m' from = Some (F\<lparr>armies := armies F - 1\<rparr>)"
      "load_territory m' to = Some T"
      "printed_since (console m) m' = [Rolagem (dado r1) (dado r2), Perde (name F) (armies F - 1)]"
  | (perda) m' where
      "sint (dado r2) < sint (dado r1)" "1 < sint (armies T)"
      "resolverAtaque m from to r1 r2 = Inr m'"
      "load_territory m' from = Some F"
      "load_territory m' to = Some (T\<lparr>armies := armies T - 1\<rparr>)"
      "printed_since (console m) m' = [Rolagem (dado r1) (dado r2), Perde (name T) (armies T - 1)]"
  | (conquista) m' where
      "sint (dado r2) < sint (dado r1)" "sint (armies T) \<le> 1"
      "resolverAtaque m from to r1 r2 = Inr m'"
      "load_territory m' from = Some (F\<lparr>armies := armies F - 1\<rparr>)"
      "load_territory m' to = Some (T\<lparr>owner := owner F, armies := 1\<rparr>)"
      "printed_since (console m) m' = [Rolagem (dado r1) (dado r2), Conquistado (name T)]"
proof -
  from F obtain a where a: "from = Ptr a" "territory_cells m a = Some F"
    by (cases "from") auto
  from T obtain b where b: "to = Ptr b" "territory_cells m b = Some T"
    by (cases to) auto
  from ne a b have ab: "a \<noteq> b" by auto
  show thesis
  proof (cases "sint (dado r2) < sint (dado r1)")
    case False
    have run: "resolverAtaque m from to r1 r2 =
      Inr (m\<lparr>territory_cells := (territory_cells m)(a \<mapsto> F\<lparr>armies := armies F - 1\<rparr>),
             console := console m @ [Rolagem (dado r1) (dado r2),
                                    Perde (name F) (armies F - 1)]\<rparr>)"
      using resolverAtaque_defesa [OF a(2) minF False] a b by simp
    show thesis
      by (rule defesa [OF False run]) (use ab in \<open>simp_all add: a b printed_since_def\<close>)
  next
    case True
    show thesis
    proof (cases "1 < sint (armies T)")
      case big: True
      have run: "resolverAtaque m from to r1 r2 =
        Inr (m\<lparr>territory_cells := (territory_cells m)(b \<mapsto> T\<lparr>armies := armies T - 1\<rparr>),
               console := console m @ [Rolagem (dado r1) (dado r2),
                                      Perde (name T) (armies T - 1)]\<rparr>)"
        using resolverAtaque_perda [OF b(2) ab minT True big] a b by simp
      show thesis
        by (rule perda [OF True big run]) (use ab in \<open>simp_all add: a b printed_since_def\<close>)
    next
      case False
      then have small: "sint (armies T) \<le> 1" by simp
      have run: "resolverAtaque m from to r1 r2 =
        Inr (m\<lparr>territory_cells := (territory_cells m)
                 (a \<mapsto> F\<lparr>armies := armies F - 1\<rparr>,
                  b \<mapsto> T\<lparr>owner := owner F, armies := 1\<rparr>),
               console := console m @ [Rolagem (dado r1) (dado r2),
                                      Conquistado (name T)]\<rparr>)"
        using resolverAtaque_conquista [OF a(2) b(2) ab minF minT True small] a b by simp
      show thesis
        by (rule conquista [OF True small run])
          (use ab in \<open>simp_all add: a b printed_since_def\<close>)
    qed
  qed
qed

text \<open>
  Every way \<open>resolverAtaque\<close> can return, with no assumption on the two pointers: the
  statements it went through.
\<close>

lemma resolverAtaque_Inr_cases:
  assumes "resolverAtaque m from to r1 r2 = Inr m'"
  obtains
    (defesa) m1 F where
      "\<not> sint (dado r2) < sint (dado r1)"
      "decrement_armies from (printf (Rolagem (dado r1) (dado r2)) m) = Inr m1"
      "load_territory m1 from = Some F"
      "m' = printf (Perde (name F) (armies F)) m1"
  | (perda) m1 T where
      "sint (dado r2) < sint (dado r1)"
      "decrement_armies to (printf (Rolagem (dado r1) (dado r2)) m) = Inr m1"
      "load_territory m1 to = Some T" "\<not> sint (armies T) \<le> 0"
      "m' = printf (Perde (name T) (armies T)) m1"
  | (conquista) m1 T F m3 m4 where
      "sint (dado r2) < sint (dado r1)"
      "decrement_armies to (printf (Rolagem (dado r1) (dado r2)) m) = Inr m1"
      "load_territory m1 to = Some T" "sint (armies T) \<le> 0"
      "load_territory m1 from = Some F"
      "update_territory to (\<lambda>T. T\<lparr>owner := owner F\<rparr>) (printf (Conquistado (name T)) m1) = Inr m3"
      "decrement_armies from m3 = Inr m4"
      "update_territory to (\<lambda>T. T\<lparr>armies := 1\<rparr>) m4 = Inr m'"
proof (cases "sint (dado r2) < sint (dado r1)")
  case False
  with assms obtain m1 where
    d: "decrement_armies from (printf (Rolagem (dado r1) (dado r2)) m) = Inr m1" and
    r: "(case load_territory m1 from of
           None \<Rightarrow> Inl Invalid_access
         | Some F \<Rightarrow> Inr (printf (Perde (name F) (armies F)) m1)) = Inr m'"
    by (auto simp: resolverAtaque_def Let_def andthen_eq_Inr)
  from r obtain F where "load_territory m1 from = Some F"
    "m' = printf (Perde (name F) (armies F)) m1"
    by (cases "load_territory m1 from") auto
  with False d show thesis by (rule defesa)
next
  case True
  with assms obtain m1 where
    d: "decrement_armies to (printf (Rolagem (dado r1) (dado r2)) m) = Inr m1" and
    r: "(case load_territory m1 to of
           None \<Rightarrow> Inl Invalid_access
         | Some T \<Rightarrow>
             if sint (armies T) \<le> 0 then
               (let m2 = printf (Conquistado (name T)) m1 in
                case load_territory m2 from of
                  None \<Rightarrow> Inl Invalid_access
                | Some F \<Rightarrow>
                    andthen (update_territory to (\<lambda>T. T\<lparr>owner := owner F\<rparr>) m2) (\<lambda>m3.
                    andthen (decrement_armies from m3) (\<lambda>m4.
                    update_territory to (\<lambda>T. T\<lparr>armies := 1\<rparr>) m4)))
             else Inr (printf (Perde (name T) (armies T)) m1)) = Inr m'"
    by (auto simp: resolverAtaque_def Let_def andthen_eq_Inr)
  from r obtain T where T: "load_territory m1 to = Some T"
    by (cases "load_territory m1 to") auto
  show thesis
  proof (cases "sint (armies T) \<le> 0")
    case False
    with r T have "m' = printf (Perde (name T) (armies T)) m1" by simp
    with True d T False show thesis by (rule perda)
  next
    case small: True
    with r T obtain F where F: "load_territory m1 from = Some F"
      by (cases "load_territory m1 from") (auto simp: Let_def)
    with r T small obtain m3 m4 where
      "update_territory to (\<lambda>T. T\<lparr>owner := owner F\<rparr>) (printf (Conquistado (name T)) m1) = Inr m3"
      "decrement_armies from m3 = Inr m4"
      "update_territory to (\<lambda>T. T\<lparr>armies := 1\<rparr>) m4 = Inr m'"
      by (auto simp: Let_def andthen_eq_Inr)
    with True d T small F show thesis by (rule conquista)
  qed
qed

lemma resolverAtaque_touches:
  assumes "resolverAtaque m from to r1 r2 = Inr m'"
  shows "touches_only {from, to} m m'"
  using assms
proof (cases rule: resolverAtaque_Inr_cases)
  case (defesa m1 F)
  have "touches_only {from} m m1"
    using touches_only_decrement [OF defesa(2)] by (rule touches_only_printf_left)
  then have "touches_only {from} m m'"
    unfolding defesa(4) by (rule touches_only_printf)
  then show ?thesis by (rule touches_only_mono) simp
next
  case (perda m1 T)
  have "touches_only {to} m m1"
    using touches_only_decrement [OF perda(2)] by (rule touches_only_printf_left)
  then have "touches_only {to} m m'"
    unfolding perda(5) by (rule touches_only_printf)
  then show ?thesis by (rule touches_only_mono) simp
next
  case (conquista m1 T F m3 m4)
  have 1: "touches_only {to} m m1"
    using touches_only_decrement [OF conquista(2)] by (rule touches_only_printf_left)
  have "touches_only {to} (printf (Conquistado (name T)) m1) m3"
    by (rule touches_only_update [OF conquista(6)]) (simp add: fixed_fields_def)
  then have 3: "touches_only {to} m1 m3" by (rule touches_only_printf_left)
  have 4: "touches_only {from} m3 m4"
    by (rule touches_only_decrement [OF conquista(7)])
  have 5: "touches_only {to} m4 m'"
    by (rule touches_only_update [OF conquista(8)]) (simp add: fixed_fields_def)
  have a: "touches_only {from, to} m m3"
    by (rule touches_only_step [OF 1 3]) simp_all
  have b: "touches_only {from, to} m m4"
    by (rule touches_only_step [OF a 4]) simp_all
  show ?thesis
    by (rule touches_only_step [OF b 5]) simp_all
qed

lemma owner_decrement:
  assumes "decrement_armies p m = Inr m'"
  shows "map_option owner (load_territory m' q) = map_option owner (load_territory m q)"
proof -
  from decrement_armies_Inr [OF assms] obtain X where
    "load_territory m p = Some X"
    "update_territory p (\<lambda>T. T\<lparr>armies := armies T - 1\<rparr>) m = Inr m'" by blast
  then show ?thesis by (simp add: load_territory_update)
qed

lemma resolverAtaque_owner_from:
  assumes "resolverAtaque m from to r1 r2 = Inr m'"
  shows "map_option owner (load_territory m' from) = map_option owner (load_territory m from)"
  using assms
proof (cases rule: resolverAtaque_Inr_cases)
  case (defesa m1 F)
  then show ?thesis using owner_decrement [OF defesa(2), of "from"] by simp
next
  case (perda m1 T)
  then show ?thesis using owner_decrement [OF perda(2), of "from"] by simp
next
  case (conquista m1 T F m3 m4)
  have 1: "map_option owner (load_territory m1 from) = map_option owner (load_territory m from)"
    using owner_decrement [OF conquista(2), of "from"] by simp
  have 3: "map_option owner (load_territory m3 from) = map_option owner (load_territory m1 from)"
  proof (cases "from = to")
    case True
    with conquista(5) show ?thesis
      by (simp add: load_territory_update [OF conquista(6)])
  next
    case False
    then show ?thesis by (simp add: load_territory_update [OF conquista(6)])
  qed
  have 4: "map_option owner (load_territory m4 from) = map_option owner (load_territory m3 from)"
    by (rule owner_decrement [OF conquista(7)])
  have 5: "map_option owner (load_territory m' from) = map_option owner (load_territory m4 from)"
    by (cases "load_territory m4 to") (simp_all add: load_territory_update [OF conquista(8)])
  from 1 3 4 5 show ?thesis by simp
qed

lemma validarAtaque_accepts:
  assumes "validarAtaque m from to p = Inr 1"
  shows "\<exists>F T. load_territory m from = Some F \<and> load_territory m to = Some T \<and>
               owner F = p \<and> owner T \<noteq> p \<and> 2 \<le> sint (armies F)"
proof -
  from assms have nn: "from \<noteq> NULL" "to \<noteq> NULL"
    by (auto simp: validarAtaque_def)
  from assms nn obtain F where F: "load_territory m from = Some F"
    by (cases "load_territory m from") (auto simp: validarAtaque_def)
  from assms nn F have p: "owner F = p"
    by (auto simp: validarAtaque_def split: if_splits)
  from assms nn F p obtain T where T: "load_territory m to = Some T"
    by (cases "load_territory m to") (auto simp: validarAtaque_def)
  from assms nn F p T have "owner T \<noteq> p" "2 \<le> sint (armies F)"
    by (auto simp: validarAtaque_def split: if_splits)
  with F T p show ?thesis by blast
qed

lemma validarAtaque_exemplo: "validarAtaque exemplo (Ptr 1) (Ptr 3) 1 = Inr 1"
proof -
  let ?F = "\<lparr>name = Ptr 2, owner = 1, armies = 5, nNeighbors = 1, neighbors = Ptr 7\<rparr>"
  have ns: "neighbor_seq exemplo ?F = Some [Ptr 3]"
    by (simp add: exemplo_def neighbor_seq_def)
  have "procurar_vizinho exemplo ?F (Ptr 3) 0 = Inr 1"
    using procurar_vizinho_drop [OF ns, of 0 "Ptr 3"] by simp
  then show ?thesis by (simp add: validarAtaque_def exemplo_def)
qed

text \<open>
  Claim C2. For two distinct live territories and whatever the two calls of \<open>rand()\<close>
  return, \<open>resolverAtaque\<close> returns, and: when the attack roll is the greater one,
  \<open>to\<close> loses one army, and if that leaves it with none (or fewer) \<open>to\<close> gets the owner
  of \<open>from\<close> and exactly 1 army while \<open>from\<close> loses one; otherwise (the defender wins
  ties) \<open>from\<close> loses one army and \<open>to\<close> is as it was. Neither count is \<open>INT_MIN\<close>, so
  each loss is a decrease by one of the signed value; the rolls range over all of 1..6
  (\<open>dado_range\<close>, \<open>dado_onto\<close>). The resolver is specified for
  attacks the validator accepted, which are between distinct live territories
  (\<open>validarAtaque_accepts\<close>); a call with \<open>from == to\<close> is outside that contract.
\<close>

theorem resolverAtaque_steps:
  assumes "load_territory m from = Some F" and "load_territory m to = Some T"
    and "from \<noteq> to" and "armies F \<noteq> INT_MIN" and "armies T \<noteq> INT_MIN"
  shows "\<exists>m'. resolverAtaque m from to r1 r2 = Inr m' \<and>
           (if sint (dado r1) > sint (dado r2) then
              (if sint (armies T) - 1 \<le> 0 then
                 load_territory m' to = Some (T\<lparr>owner := owner F, armies := 1\<rparr>) \<and>
                 load_territory m' from = Some (F\<lparr>armies := armies F - 1\<rparr>)
               else
                 load_territory m' to = Some (T\<lparr>armies := armies T - 1\<rparr>) \<and>
                 load_territory m' from = Some F)
            else
              load_territory m' from = Some (F\<lparr>armies := armies F - 1\<rparr>) \<and>
              load_territory m' to = Some T) \<and>
           sint (armies F - 1) = sint (armies F) - 1 \<and>
           sint (armies T - 1) = sint (armies T) - 1"
  using assms(1-5)
proof (cases rule: resolverAtaque_cases [where ?r1.0 = r1 and ?r2.0 = r2])
  case (defesa m')
  then show ?thesis using assms(4,5) by (simp add: sint_dec)
next
  case (perda m')
  then show ?thesis using assms(4,5) by (simp add: sint_dec)
next
  case (conquista m')
  then show ?thesis using assms(4,5) by (simp add: sint_dec)
qed

theorem resolverAtaque_steps_witness:
  "(\<exists>m'. resolverAtaque exemplo (Ptr 1) (Ptr 3) 2 4 = Inr m' \<and>
      load_territory m' (Ptr 1) =
        Some \<lparr>name = Ptr 2, owner = 1, armies = 4, nNeighbors = 1, neighbors = Ptr 7\<rparr> \<and>
      load_territory m' (Ptr 3) =
        Some \<lparr>name = Ptr 4, owner = 2, armies = 3, nNeighbors = 2, neighbors = Ptr 9\<rparr>) \<and>
   (\<exists>m'. resolverAtaque exemplo (Ptr 1) (Ptr 3) 5 0 = Inr m' \<and>
      load_territory m' (Ptr 1) =
        Some \<lparr>name = Ptr 2, owner = 1, armies = 5, nNeighbors = 1, neighbors = Ptr 7\<rparr> \<and>
      load_territory m' (Ptr 3) =
        Some \<lparr>name = Ptr 4, owner = 2, armies = 2, nNeighbors = 2, neighbors = Ptr 9\<rparr>)"
proof -
  let ?F = "\<lparr>name = Ptr 2, owner = 1, armies = 5, nNeighbors = 1, neighbors = Ptr 7\<rparr>"
  let ?T = "\<lparr>name = Ptr 4, owner = 2, armies = 3, nNeighbors = 2, neighbors = Ptr 9\<rparr>"
  have F: "load_territory exemplo (Ptr 1) = Some ?F" by (simp add: exemplo_def)
  have T: "load_territory exemplo (Ptr 3) = Some ?T" by (simp add: exemplo_def)
  have ne: "Ptr 1 \<noteq> Ptr 3" by simp
  have minF: "armies ?F \<noteq> INT_MIN" by (simp add: INT_MIN_def)
  have minT: "armies ?T \<noteq> INT_MIN" by (simp add: INT_MIN_def)
  show ?thesis
    using resolverAtaque_steps [OF F T ne minF minT, of 2 4]
      resolverAtaque_steps [OF F T ne minF minT, of 5 0]
    by (auto simp add: dado_values)
qed

text \<open>
  Claim C3. Comparing the store before and after a combat of two distinct live
  territories: either the owners are unchanged and exactly one of the two army counts is
  one less, the other unchanged; or \<open>to\<close> has the owner of \<open>from\<close> and exactly 1 army and
  \<open>from\<close> has one army less. A change of owner comes only with the second, which is the
  branch that prints the conquest; when the conquest was not printed the owner of \<open>to\<close>
  is unchanged.
\<close>

theorem resolverAtaque_exchange:
  assumes "load_territory m from = Some F" and "load_territory m to = Some T"
    and "from \<noteq> to" and "armies F \<noteq> INT_MIN" and "armies T \<noteq> INT_MIN"
  shows "\<exists>m' F' T'. resolverAtaque m from to r1 r2 = Inr m' \<and>
           load_territory m' from = Some F' \<and> load_territory m' to = Some T' \<and>
           ((owner T' = owner T \<and> owner F' = owner F \<and>
             (sint (armies F') = sint (armies F) - 1 \<and> armies T' = armies T \<or>
              sint (armies T') = sint (armies T) - 1 \<and> armies F' = armies F))
            \<or>
            (owner T' = owner F \<and> sint (armies T') = 1 \<and>
             sint (armies F') = sint (armies F) - 1 \<and> owner F' = owner F)) \<and>
           (owner T' \<noteq> owner T \<longrightarrow>
              owner T' = owner F \<and> sint (armies T') = 1 \<and>
              sint (armies F') = sint (armies F) - 1 \<and>
              Conquistado (name T) \<in> set (printed_since (console m) m')) \<and>
           (Conquistado (name T) \<notin> set (printed_since (console m) m') \<longrightarrow>
              owner T' = owner T)"
  using assms(1-5)
proof (cases rule: resolverAtaque_cases [where ?r1.0 = r1 and ?r2.0 = r2])
  case (defesa m')
  then show ?thesis using assms(4,5) by (simp add: sint_dec)
next
  case (perda m')
  then show ?thesis using assms(4,5) by (simp add: sint_dec)
next
  case (conquista m')
  then show ?thesis using assms(4,5) by (simp add: sint_dec)
qed

theorem resolverAtaque_exchange_witness:
  "\<exists>m' F' T'. resolverAtaque exemplo_cerco (Ptr 1) (Ptr 3) 5 0 = Inr m' \<and>
      load_territory m' (Ptr 1) = Some F' \<and> load_territory m' (Ptr 3) = Some T' \<and>
      (owner T' = 2 \<and> owner F' = 1 \<and>
         (sint (armies F') = 4 \<and> armies T' = 1 \<or> sint (armies T') = 0 \<and> armies F' = 5) \<or>
       owner T' = 1 \<and> sint (armies T') = 1 \<and> sint (armies F') = 4 \<and> owner F' = 1)"
proof -
  let ?F = "\<lparr>name = Ptr 2, owner = 1, armies = 5, nNeighbors = 1, neighbors = Ptr 7\<rparr>"
  let ?T = "\<lparr>name = Ptr 4, owner = 2, armies = 1, nNeighbors = 2, neighbors = Ptr 9\<rparr>"
  have F: "load_territory exemplo_cerco (Ptr 1) = Some ?F"
    by (simp add: exemplo_cerco_def exemplo_def)
  have T: "load_territory exemplo_cerco (Ptr 3) = Some ?T"
    by (simp add: exemplo_cerco_def exemplo_def)
  have ne: "Ptr 1 \<noteq> Ptr 3" by simp
  have minF: "armies ?F \<noteq> INT_MIN" by (simp add: INT_MIN_def)
  have minT: "armies ?T \<noteq> INT_MIN" by (simp add: INT_MIN_def)
  from resolverAtaque_exchange [OF F T ne minF minT, of 5 0]
  show ?thesis by simp blast
qed

text \<open>
  Claim C4. The conquest (its message is printed and \<open>to\<close> gets the owner of \<open>from\<close>)
  happens exactly when the attacker wins the roll and the defender's count less one is
  at most 0. With 1 army in \<open>to\<close> and a winning attacker the result is: \<open>to\<close> owned by the
  owner of \<open>from\<close>, 1 army in \<open>to\<close>, one army less in \<open>from\<close>.
\<close>

theorem conquista_iff:
  assumes "load_territory m from = Some F" and "load_territory m to = Some T"
    and "from \<noteq> to" and "armies F \<noteq> INT_MIN" and "armies T \<noteq> INT_MIN"
  shows "\<exists>m' F' T'. resolverAtaque m from to r1 r2 = Inr m' \<and>
           load_territory m' from = Some F' \<and> load_territory m' to = Some T' \<and>
           (Conquistado (name T) \<in> set (printed_since (console m) m') \<longleftrightarrow>
              sint (dado r2) < sint (dado r1) \<and> sint (armies T) - 1 \<le> 0) \<and>
           owner T' =
             (if sint (dado r2) < sint (dado r1) \<and> sint (armies T) - 1 \<le> 0
              then owner F else owner T) \<and>
           (sint (dado r2) < sint (dado r1) \<and> armies T = 1 \<longrightarrow>
              owner T' = owner F \<and> armies T' = 1 \<and>
              sint (armies F') = sint (armies F) - 1)"
  using assms(1-5)
proof (cases rule: resolverAtaque_cases [where ?r1.0 = r1 and ?r2.0 = r2])
  case (defesa m')
  then show ?thesis using assms(4,5) by (simp add: sint_dec)
next
  case (perda m')
  then show ?thesis using assms(4,5) by (auto simp add: sint_dec)
next
  case (conquista m')
  then show ?thesis using assms(4,5) by (simp add: sint_dec)
qed

theorem conquista_iff_witness:
  "\<exists>m' F' T'. resolverAtaque exemplo_cerco (Ptr 1) (Ptr 3) 5 0 = Inr m' \<and>
      load_territory m' (Ptr 1) = Some F' \<and> load_territory m' (Ptr 3) = Some T' \<and>
      Conquistado (Ptr 4) \<in> set (printed_since (console exemplo_cerco) m') \<and>
      owner T' = 1 \<and> armies T' = 1 \<and> sint (armies F') = 4"
proof -
  let ?F = "\<lparr>name = Ptr 2, owner = 1, armies = 5, nNeighbors = 1, neighbors = Ptr 7\<rparr>"
  let ?T = "\<lparr>name = Ptr 4, owner = 2, armies = 1, nNeighbors = 2, neighbors = Ptr 9\<rparr>"
  have F: "load_territory exemplo_cerco (Ptr 1) = Some ?F"
    by (simp add: exemplo_cerco_def exemplo_def)
  have T: "load_territory exemplo_cerco (Ptr 3) = Some ?T"
    by (simp add: exemplo_cerco_def exemplo_def)
  have ne: "Ptr 1 \<noteq> Ptr 3" by simp
  have minF: "armies ?F \<noteq> INT_MIN" by (simp add: INT_MIN_def)
  have minT: "armies ?T \<noteq> INT_MIN" by (simp add: INT_MIN_def)
  from conquista_iff [OF F T ne minF minT, of 5 0]
  show ?thesis by (auto simp add: dado_values)
qed

text \<open>
  Claim C5. After an attack that \<open>validarAtaque\<close> accepted for the owner of \<open>from\<close>,
  on a \<open>to\<close> with a non-negative army count, \<open>resolverAtaque\<close> returns and both counts
  are non-negative; no other territory changes, and every count it prints is
  non-negative. (The validator's answer already gives \<open>from\<close> at least 2 armies.)
\<close>

theorem resolverAtaque_nonneg:
  assumes "validarAtaque m from to (owner F) = Inr 1"
    and "load_territory m from = Some F" and "load_territory m to = Some T"
    and "0 \<le> sint (armies T)"
  shows "\<exists>m' F' T'. resolverAtaque m from to r1 r2 = Inr m' \<and>
           load_territory m' from = Some F' \<and> load_territory m' to = Some T' \<and>
           0 \<le> sint (armies F') \<and> 0 \<le> sint (armies T') \<and>
           (\<forall>q. q \<noteq> from \<and> q \<noteq> to \<longrightarrow> load_territory m' q = load_territory m q) \<and>
           (\<forall>nm v. Perde nm v \<in> set (printed_since (console m) m') \<longrightarrow> 0 \<le> sint v)"
proof -
  from validarAtaque_accepts [OF assms(1)] assms(2,3)
  have own: "owner T \<noteq> owner F" and two: "2 \<le> sint (armies F)" by auto
  from own assms(2,3) have ne: "from \<noteq> to" by auto
  from two have minF: "armies F \<noteq> INT_MIN" by (auto simp: INT_MIN_def)
  from assms(4) have minT: "armies T \<noteq> INT_MIN" by (auto simp: INT_MIN_def)
  have others: "resolverAtaque m from to r1 r2 = Inr m' \<Longrightarrow>
      \<forall>q. q \<noteq> from \<and> q \<noteq> to \<longrightarrow> load_territory m' q = load_territory m q" for m'
    by (drule resolverAtaque_touches) (simp add: touches_only_def)
  from assms(2,3) ne minF minT show ?thesis
  proof (cases rule: resolverAtaque_cases [where ?r1.0 = r1 and ?r2.0 = r2])
    case (defesa m')
    with others [OF defesa(2)] two assms(4) minF show ?thesis by (simp add: sint_dec)
  next
    case (perda m')
    with others [OF perda(3)] two assms(4) minT show ?thesis by (simp add: sint_dec)
  next
    case (conquista m')
    with others [OF conquista(3)] two assms(4) minF show ?thesis by (simp add: sint_dec)
  qed
qed

theorem resolverAtaque_nonneg_witness:
  "\<exists>m' F' T'. resolverAtaque exemplo (Ptr 1) (Ptr 3) 2 4 = Inr m' \<and>
      load_territory m' (Ptr 1) = Some F' \<and> load_territory m' (Ptr 3) = Some T' \<and>
      0 \<le> sint (armies F') \<and> 0 \<le> sint (armies T')"
proof -
  let ?F = "\<lparr>name = Ptr 2, owner = 1, armies = 5, nNeighbors = 1, neighbors = Ptr 7\<rparr>"
  let ?T = "\<lparr>name = Ptr 4, owner = 2, armies = 3, nNeighbors = 2, neighbors = Ptr 9\<rparr>"
  have F: "load_territory exemplo (Ptr 1) = Some ?F" by (simp add: exemplo_def)
  have T: "load_territory exemplo (Ptr 3) = Some ?T" by (simp add: exemplo_def)
  have v: "validarAtaque exemplo (Ptr 1) (Ptr 3) (owner ?F) = Inr 1"
    using validarAtaque_exemplo by simp
  have nonneg: "0 \<le> sint (armies ?T)" by simp
  from resolverAtaque_nonneg [OF v F T nonneg, of 2 4]
  show ?thesis by blast
qed

text \<open>
  Claim C6. Whenever \<open>resolverAtaque\<close> returns, for any two pointers: missions, texts,
  both kinds of arrays and the allocator are unchanged; every territory other than
  \<open>from\<close> and \<open>to\<close> is unchanged; \<open>from\<close> and \<open>to\<close> keep their \<open>name\<close>, \<open>nNeighbors\<close>
  and \<open>neighbors\<close> fields, and \<open>from\<close> its owner; the neighbour sequence of every
  territory is what it was.
\<close>

theorem resolverAtaque_frame:
  assumes "resolverAtaque m from to r1 r2 = Inr m'"
  shows "mission_cells m' = mission_cells m \<and> text_cells m' = text_cells m \<and>
         territory_arrays m' = territory_arrays m \<and> mission_arrays m' = mission_arrays m \<and>
         lim m' = lim m \<and> budget m' = budget m \<and>
         (\<forall>q. q \<noteq> from \<and> q \<noteq> to \<longrightarrow> load_territory m' q = load_territory m q) \<and>
         map_option fixed_fields (load_territory m' to) =
           map_option fixed_fields (load_territory m to) \<and>
         map_option fixed_fields (load_territory m' from) =
           map_option fixed_fields (load_territory m from) \<and>
         map_option owner (load_territory m' from) = map_option owner (load_territory m from) \<and>
         (\<forall>q. map_option (neighbor_seq m') (load_territory m' q) =
              map_option (neighbor_seq m) (load_territory m q))"
proof -
  have t: "touches_only {from, to} m m'" by (rule resolverAtaque_touches [OF assms])
  have ff: "map_option fixed_fields (load_territory m' q) =
            map_option fixed_fields (load_territory m q)" for q
    using t by (simp add: touches_only_def)
  have arr: "territory_arrays m' = territory_arrays m"
    using t by (simp add: touches_only_def)
  have others: "\<forall>q. q \<noteq> from \<and> q \<noteq> to \<longrightarrow> load_territory m' q = load_territory m q"
    using t by (simp add: touches_only_def)
  have rest: "mission_cells m' = mission_cells m \<and> text_cells m' = text_cells m \<and>
     mission_arrays m' = mission_arrays m \<and> lim m' = lim m \<and> budget m' = budget m"
    using t by (simp add: touches_only_def)
  have ns: "\<forall>q. map_option (neighbor_seq m') (load_territory m' q) =
        map_option (neighbor_seq m) (load_territory m q)"
  proof
    fix q
    show "map_option (neighbor_seq m') (load_territory m' q) =
        map_option (neighbor_seq m) (load_territory m q)"
    proof (cases "load_territory m q")
      case None
      with ff [of q] show ?thesis by simp
    next
      case (Some X)
      with ff [of q] obtain X' where X': "load_territory m' q = Some X'"
        "fixed_fields X' = fixed_fields X" by auto
      have "neighbor_seq m' X' = neighbor_seq m X"
        using arr X'(2) by (rule neighbor_seq_cong)
      with Some X'(1) show ?thesis by simp
    qed
  qed
  note own = resolverAtaque_owner_from [OF assms]
  show ?thesis
    using rest arr others ff [of to] ff [of "from"] own ns by (simp only: simp_thms)
qed

theorem resolverAtaque_frame_witness:
  "\<exists>m'. resolverAtaque exemplo (Ptr 1) (Ptr 3) 5 0 = Inr m' \<and>
      text_cells m' = text_cells exemplo \<and>
      territory_arrays m' = territory_arrays exemplo \<and>
      load_territory m' (Ptr 5) = load_territory exemplo (Ptr 5) \<and>
      map_option owner (load_territory m' (Ptr 1)) = Some 1 \<and>
      map_option (neighbor_seq m') (load_territory m' (Ptr 3)) = Some (Some [Ptr 1, Ptr 5])"
proof -
  let ?T = "\<lparr>name = Ptr 4, owner = 2, armies = 3, nNeighbors = 2, neighbors = Ptr 9\<rparr>"
  have T: "territory_cells exemplo 3 = Some ?T" by (simp add: exemplo_def)
  have minT: "armies ?T \<noteq> INT_MIN" by (simp add: INT_MIN_def)
  have win: "sint (dado 0) < sint (dado 5)" by (simp add: dado_values)
  have big: "1 < sint (armies ?T)" by simp
  have ne: "(1::nat) \<noteq> 3" by simp
  define m' where "m' =
    exemplo\<lparr>territory_cells := (territory_cells exemplo)(3 \<mapsto> ?T\<lparr>armies := armies ?T - 1\<rparr>),
            console := console exemplo @ [Rolagem (dado 5) (dado 0),
                                          Perde (name ?T) (armies ?T - 1)]\<rparr>"
  have run: "resolverAtaque exemplo (Ptr 1) (Ptr 3) 5 0 = Inr m'"
    unfolding m'_def by (rule resolverAtaque_perda [OF T ne minT win big])
  have ns: "map_option (neighbor_seq exemplo) (load_territory exemplo (Ptr 3)) =
            Some (Some [Ptr 1, Ptr 5])"
    by (simp add: exemplo_def neighbor_seq_def)
  have ow: "map_option owner (load_territory exemplo (Ptr 1)) = Some 1"
    by (simp add: exemplo_def)
  note fr = resolverAtaque_frame [OF run]
  have tx: "text_cells m' = text_cells exemplo"
    and ar: "territory_arrays m' = territory_arrays exemplo"
    and others: "\<forall>q. q \<noteq> Ptr 1 \<and> q \<noteq> Ptr 3 \<longrightarrow> load_territory m' q = load_territory exemplo q"
    and own: "map_option owner (load_territory m' (Ptr 1)) =
              map_option owner (load_territory exemplo (Ptr 1))"
    and seqs: "\<forall>q. map_option (neighbor_seq m') (load_territory m' q) =
                   map_option (neighbor_seq exemplo) (load_territory exemplo q)"
    using fr by blast+
  have p5: "load_territory m' (Ptr 5) = load_territory exemplo (Ptr 5)"
    using others [rule_format, of "Ptr 5"] by simp
  have o1: "map_option owner (load_territory m' (Ptr 1)) = Some 1"
    by (simp only: own ow)
  have n3: "map_option (neighbor_seq m') (load_territory m' (Ptr 3)) = Some (Some [Ptr 1, Ptr 5])"
    by (simp only: seqs [rule_format] ns)
  from run tx ar p5 o1 n3 show ?thesis by blast
qed

section \<open>Creation\<close>

lemma criarTerritorio_Inr:
  assumes "criarTerritorio m nm ow ar = Inr (p, m')"
  shows "2 \<le> budget m \<and> p = Ptr (lim m) \<and>
         m' = m\<lparr>lim := Suc (Suc (lim m)), budget := budget m - 2,
                text_cells := (text_cells m)(Suc (lim m) \<mapsto> nm),
                territory_cells := (territory_cells m)
                  (lim m \<mapsto> \<lparr>name = Ptr (Suc (lim m)), owner = ow, armies = ar,
                              nNeighbors = 0, neighbors = NULL\<rparr>)\<rparr>"
  using assms
  by (auto simp: criarTerritorio_def alloc_def split: if_splits)

text \<open>
  Claim C8, as the code has it. \<open>criarTerritorio\<close> returns whenever two allocations
  succeed, and the territory it returns holds the owner and the army count it was given,
  a copy of the name, and no neighbours (count 0, array \<open>NULL\<close>, empty sequence). The
  count is stored unchecked: it is non-negative exactly when the argument is.
\<close>

theorem criarTerritorio_fields:
  "(2 \<le> budget m \<longrightarrow> (\<exists>p m'. criarTerritorio m nm ow ar = Inr (p, m'))) \<and>
   (criarTerritorio m nm ow ar = Inr (p, m') \<longrightarrow>
      (\<exists>b T. load_territory m' p = Some T \<and>
             T = \<lparr>name = Ptr b, owner = ow, armies = ar, nNeighbors = 0, neighbors = NULL\<rparr> \<and>
             text_cells m' b = Some nm \<and>
             neighbor_list m' p = Some [] \<and>
             (0 \<le> sint (armies T) \<longleftrightarrow> 0 \<le> sint ar)))"
proof (intro conjI impI)
  assume "2 \<le> budget m"
  then show "\<exists>p m'. criarTerritorio m nm ow ar = Inr (p, m')"
    by (simp add: criarTerritorio_def alloc_def)
next
  assume "criarTerritorio m nm ow ar = Inr (p, m')"
  from criarTerritorio_Inr [OF this]
  show "\<exists>b T. load_territory m' p = Some T \<and>
             T = \<lparr>name = Ptr b, owner = ow, armies = ar, nNeighbors = 0, neighbors = NULL\<rparr> \<and>
             text_cells m' b = Some nm \<and>
             neighbor_list m' p = Some [] \<and>
             (0 \<le> sint (armies T) \<longleftrightarrow> 0 \<le> sint ar)"
    by (simp add: neighbor_list_def neighbor_seq_def)
qed

theorem criarTerritorio_fields_witness:
  "\<exists>b. load_territory exemplo_negativo (Ptr 16) =
          Some \<lparr>name = Ptr b, owner = 0, armies = - 1, nNeighbors = 0, neighbors = NULL\<rparr> \<and>
        text_cells exemplo_negativo b = Some ''Deserto'' \<and>
        neighbor_list exemplo_negativo (Ptr 16) = Some []"
proof -
  have run: "criarTerritorio exemplo ''Deserto'' 0 (- 1) = Inr (Ptr 16, exemplo_negativo)"
    by (simp add: criarTerritorio_def alloc_def exemplo_negativo_def exemplo_def)
  from criarTerritorio_fields [of exemplo "''Deserto''" 0 "- 1" "Ptr 16" exemplo_negativo] run
  show ?thesis by auto
qed

text \<open>
  Claim C8 as stated fails for a negative argument: the territory created with
  \<open>armies = -1\<close> holds \<open>-1\<close>.
\<close>

theorem criarTerritorio_negative_counterexample:
  "criarTerritorio exemplo ''Deserto'' 0 (- 1) = Inr (Ptr 16, exemplo_negativo) \<and>
   load_territory exemplo_negativo (Ptr 16) =
     Some \<lparr>name = Ptr 17, owner = 0, armies = - 1, nNeighbors = 0, neighbors = NULL\<rparr> \<and>
   sint (armies \<lparr>name = Ptr 17, owner = 0, armies = - 1, nNeighbors = 0, neighbors = NULL\<rparr>) < 0"
  by (simp add: criarTerritorio_def alloc_def exemplo_negativo_def exemplo_def)

section \<open>Adjacency\<close>

lemma grown_array:
  assumes "n \<le> length old"
  shows "take (Suc n) ((take (Suc n) (old @ replicate (Suc n) NULL))[n := v]) = take n old @ [v]"
proof -
  let ?R = "old @ replicate (Suc n) NULL"
  have len: "n < length ?R" by simp
  have "take (Suc n) ?R = take n ?R @ [?R ! n]"
    by (rule take_Suc_conv_app_nth [OF len])
  also have "take n ?R = take n old" using assms by simp
  finally have "(take (Suc n) ?R)[n := v] = (take n old @ [?R ! n])[n := v]" by simp
  also have "\<dots> = take n old @ [v]"
    using assms by (simp add: list_update_append min_def)
  finally show ?thesis using assms by (simp add: min_def)
qed

text \<open>The store after \<open>adicionarVizinho\<close>, for a territory whose array field is in order.\<close>

lemma adicionarVizinho_NULL:
  assumes "territory_cells m a = Some T" "neighbors T = NULL" "nNeighbors T = 0" "0 < budget m"
  shows "adicionarVizinho m (Ptr a) v =
         Inr (m\<lparr>territory_arrays := (territory_arrays m)(lim m \<mapsto> [v]),
                lim := Suc (lim m), budget := budget m - 1,
                territory_cells := (territory_cells m)
                  (a \<mapsto> T\<lparr>neighbors := Ptr (lim m), nNeighbors := 1\<rparr>)\<rparr>)"
  using assms
  by (simp add: adicionarVizinho_def INT_MAX_def)

lemma adicionarVizinho_Ptr:
  assumes "territory_cells m a = Some T" "neighbors T = Ptr b" "territory_arrays m b = Some old"
    and "0 \<le> sint (nNeighbors T)" "nNeighbors T \<noteq> INT_MAX" "0 < budget m"
  shows "adicionarVizinho m (Ptr a) v =
         Inr (m\<lparr>territory_arrays := ((territory_arrays m)(b := None))
                  (lim m \<mapsto> (take (Suc (nat (sint (nNeighbors T))))
                                (old @ replicate (Suc (nat (sint (nNeighbors T)))) NULL))
                              [nat (sint (nNeighbors T)) := v]),
                lim := Suc (lim m), budget := budget m - 1,
                territory_cells := (territory_cells m)
                  (a \<mapsto> T\<lparr>neighbors := Ptr (lim m), nNeighbors := nNeighbors T + 1\<rparr>)\<rparr>)"
proof -
  have n: "nat (sint (nNeighbors T) + 1) = Suc (nat (sint (nNeighbors T)))"
    using assms(4) by simp
  show ?thesis
    using assms by (simp add: adicionarVizinho_def n)
qed

lemma neighbor_seq_same_block:
  assumes "\<And>c. neighbors N = Ptr c \<Longrightarrow> territory_arrays m' c = territory_arrays m c"
  shows "neighbor_seq m' N = neighbor_seq m N"
  using assms by (cases "neighbors N") (simp_all add: neighbor_seq_def)

lemma neighbor_seq_block:
  assumes "neighbors X = Ptr c" "territory_arrays m c = Some arr"
    and "0 < sint (nNeighbors X)" "nat (sint (nNeighbors X)) \<le> length arr"
  shows "neighbor_seq m X = Some (take (nat (sint (nNeighbors X))) arr)"
  using assms by (simp add: neighbor_seq_def)

lemma neighbors_ok_seq:
  assumes "neighbors_ok m T"
  obtains (null) "neighbors T = NULL" "nNeighbors T = 0" "neighbor_seq m T = Some []"
  | (block) b old where "neighbors T = Ptr b" "b < lim m" "territory_arrays m b = Some old"
      "0 \<le> sint (nNeighbors T)" "nat (sint (nNeighbors T)) \<le> length old"
      "neighbor_seq m T = Some (take (nat (sint (nNeighbors T))) old)"
proof (cases "neighbors T")
  case NULL
  with assms have "nNeighbors T = 0" by (simp add: neighbors_ok_def)
  with NULL show ?thesis by (intro null) (simp_all add: neighbor_seq_def)
next
  case (Ptr b)
  with assms obtain old where old: "territory_arrays m b = Some old"
    by (cases "territory_arrays m b") (auto simp: neighbors_ok_def)
  with assms Ptr have *: "b < lim m" "0 \<le> sint (nNeighbors T)"
    "nat (sint (nNeighbors T)) \<le> length old"
    by (auto simp: neighbors_ok_def)
  with Ptr old have "neighbor_seq m T = Some (take (nat (sint (nNeighbors T))) old)"
    by (auto simp: neighbor_seq_def)
  with Ptr old * show ?thesis by (intro block)
qed

text \<open>
  Claim C7, as the code has it. For a live territory \<open>t\<close> whose array field is in order,
  a count below \<open>INT_MAX\<close> and an allocator that can serve the request,
  \<open>adicionarVizinho m t n\<close> returns; the count of \<open>t\<close> is one more; its neighbour sequence
  is the old one followed by \<open>n\<close>; every other territory is unchanged, and so is the
  neighbour list of every other territory that has a block of its own, \<open>n\<close> among them
  when \<open>n\<close> is not \<open>t\<close>: there is no duplicate check and no reverse edge.
\<close>

theorem adicionarVizinho_appends:
  assumes T: "load_territory m t = Some T" and ok: "neighbors_ok m T"
    and max: "nNeighbors T \<noteq> INT_MAX" and mem: "0 < budget m"
  shows "\<exists>m' T' ns. adicionarVizinho m t n = Inr m' \<and>
           load_territory m' t = Some T' \<and> neighbor_seq m T = Some ns \<and>
           sint (nNeighbors T') = sint (nNeighbors T) + 1 \<and>
           neighbor_seq m' T' = Some (ns @ [n]) \<and>
           (\<forall>q. q \<noteq> t \<longrightarrow> load_territory m' q = load_territory m q) \<and>
           (\<forall>q N. q \<noteq> t \<and> load_territory m q = Some N \<and> neighbors_ok m N \<and>
                  (neighbors N = NULL \<or> neighbors N \<noteq> neighbors T) \<longrightarrow>
                  neighbor_list m' q = neighbor_list m q)"
proof -
  from T obtain a where a: "t = Ptr a" "territory_cells m a = Some T"
    by (cases t) auto
  from ok show ?thesis
  proof (cases rule: neighbors_ok_seq)
    case null
    let ?T' = "T\<lparr>neighbors := Ptr (lim m), nNeighbors := 1\<rparr>"
    define m' where "m' =
      m\<lparr>territory_arrays := (territory_arrays m)(lim m \<mapsto> [n]),
        lim := Suc (lim m), budget := budget m - 1,
        territory_cells := (territory_cells m)(a \<mapsto> ?T')\<rparr>"
    have run: "adicionarVizinho m t n = Inr m'"
      unfolding m'_def a(1) by (rule adicionarVizinho_NULL [OF a(2) null(1,2) mem])
    have T': "load_territory m' t = Some ?T'" by (simp add: m'_def a)
    have cnt: "sint (nNeighbors ?T') = sint (nNeighbors T) + 1" using null(2) by simp
    have seq: "neighbor_seq m' ?T' = Some ([] @ [n])" by (simp add: neighbor_seq_def m'_def)
    have others: "\<forall>q. q \<noteq> t \<longrightarrow> load_territory m' q = load_territory m q"
    proof (intro allI impI)
      fix q assume "q \<noteq> t" then show "load_territory m' q = load_territory m q"
        by (cases q) (simp_all add: m'_def a)
    qed
    have lists: "\<forall>q N. q \<noteq> t \<and> load_territory m q = Some N \<and> neighbors_ok m N \<and>
                  (neighbors N = NULL \<or> neighbors N \<noteq> neighbors T) \<longrightarrow>
                  neighbor_list m' q = neighbor_list m q"
    proof (intro allI impI, elim conjE)
      fix q N
      assume q: "q \<noteq> t" "load_territory m q = Some N" "neighbors_ok m N"
      have "neighbor_seq m' N = neighbor_seq m N"
      proof (rule neighbor_seq_same_block)
        fix c assume "neighbors N = Ptr c"
        with q(3) have "c < lim m" by (simp add: neighbors_ok_def)
        then show "territory_arrays m' c = territory_arrays m c" by (simp add: m'_def)
      qed
      with q others show "neighbor_list m' q = neighbor_list m q"
        by (simp add: neighbor_list_def)
    qed
    from run T' null(3) cnt seq others lists show ?thesis by blast
  next
    case (block b old)
    let ?k = "nat (sint (nNeighbors T))"
    let ?T' = "T\<lparr>neighbors := Ptr (lim m), nNeighbors := nNeighbors T + 1\<rparr>"
    define arr where "arr = (take (Suc ?k) (old @ replicate (Suc ?k) NULL))[?k := n]"
    define m' where "m' =
      m\<lparr>territory_arrays := ((territory_arrays m)(b := None))(lim m \<mapsto> arr),
        lim := Suc (lim m), budget := budget m - 1,
        territory_cells := (territory_cells m)(a \<mapsto> ?T')\<rparr>"
    have run: "adicionarVizinho m t n = Inr m'"
      unfolding m'_def a(1) arr_def
      by (rule adicionarVizinho_Ptr [OF a(2) block(1,3,4) max mem])
    have T': "load_territory m' t = Some ?T'" by (simp add: m'_def a)
    have cnt: "sint (nNeighbors ?T') = sint (nNeighbors T) + 1"
      using sint_inc [OF max] by simp
    have k: "nat (sint (nNeighbors ?T')) = Suc ?k" using cnt block(4) by simp
    have pos: "0 < sint (nNeighbors ?T')" using cnt block(4) by simp
    have len: "nat (sint (nNeighbors ?T')) \<le> length arr" unfolding k by (simp add: arr_def)
    have blk: "territory_arrays m' (lim m) = Some arr" by (simp add: m'_def)
    have ptr: "neighbors ?T' = Ptr (lim m)" by simp
    have "neighbor_seq m' ?T' = Some (take (Suc ?k) arr)"
      using neighbor_seq_block [OF ptr blk pos len] unfolding k .
    then have seq: "neighbor_seq m' ?T' = Some (take ?k old @ [n])"
      unfolding arr_def by (simp only: grown_array [OF block(5)])
    have others: "\<forall>q. q \<noteq> t \<longrightarrow> load_territory m' q = load_territory m q"
    proof (intro allI impI)
      fix q assume "q \<noteq> t" then show "load_territory m' q = load_territory m q"
        by (cases q) (simp_all add: m'_def a)
    qed
    have lists: "\<forall>q N. q \<noteq> t \<and> load_territory m q = Some N \<and> neighbors_ok m N \<and>
                  (neighbors N = NULL \<or> neighbors N \<noteq> neighbors T) \<longrightarrow>
                  neighbor_list m' q = neighbor_list m q"
    proof (intro allI impI, elim conjE)
      fix q N
      assume q: "q \<noteq> t" "load_territory m q = Some N" "neighbors_ok m N"
        and sep: "neighbors N = NULL \<or> neighbors N \<noteq> neighbors T"
      have "neighbor_seq m' N = neighbor_seq m N"
      proof (rule neighbor_seq_same_block)
        fix c assume c: "neighbors N = Ptr c"
        with q(3) have "c < lim m" by (simp add: neighbors_ok_def)
        moreover from c sep block(1) have "c \<noteq> b" by auto
        ultimately show "territory_arrays m' c = territory_arrays m c" by (simp add: m'_def)
      qed
      with q others show "neighbor_list m' q = neighbor_list m q"
        by (simp add: neighbor_list_def)
    qed
    from run T' block(6) cnt seq others lists show ?thesis by blast
  qed
qed

theorem adicionarVizinho_appends_witness:
  "\<exists>m'. adicionarVizinho exemplo (Ptr 1) (Ptr 5) = Inr m' \<and>
         neighbor_list m' (Ptr 1) = Some [Ptr 3, Ptr 5] \<and>
         neighbor_list m' (Ptr 5) = Some [Ptr 3]"
proof -
  let ?T = "\<lparr>name = Ptr 2, owner = 1, armies = 5, nNeighbors = 1, neighbors = Ptr 7\<rparr>"
  let ?N = "\<lparr>name = Ptr 6, owner = 0, armies = 2, nNeighbors = 1, neighbors = Ptr 10\<rparr>"
  have T: "load_territory exemplo (Ptr 1) = Some ?T" by (simp add: exemplo_def)
  have ok: "neighbors_ok exemplo ?T" by (simp add: neighbors_ok_def exemplo_def)
  have max: "nNeighbors ?T \<noteq> INT_MAX" by (simp add: INT_MAX_def)
  have mem: "0 < budget exemplo" by (simp add: exemplo_def)
  have ns: "neighbor_seq exemplo ?T = Some [Ptr 3]"
    by (simp add: neighbor_seq_def exemplo_def)
  have N: "Ptr 5 \<noteq> Ptr 1 \<and> load_territory exemplo (Ptr 5) = Some ?N \<and> neighbors_ok exemplo ?N \<and>
           (neighbors ?N = NULL \<or> neighbors ?N \<noteq> neighbors ?T)"
    by (simp add: neighbors_ok_def exemplo_def)
  have before: "neighbor_list exemplo (Ptr 5) = Some [Ptr 3]"
    by (simp add: neighbor_list_def neighbor_seq_def exemplo_def)
  from adicionarVizinho_appends [OF T ok max mem, of "Ptr 5"]
  obtain m' T' ns' where *:
    "adicionarVizinho exemplo (Ptr 1) (Ptr 5) = Inr m'"
    "load_territory m' (Ptr 1) = Some T'" "neighbor_seq exemplo ?T = Some ns'"
    "neighbor_seq m' T' = Some (ns' @ [Ptr 5])"
    "\<forall>q N. q \<noteq> Ptr 1 \<and> load_territory exemplo q = Some N \<and> neighbors_ok exemplo N \<and>
            (neighbors N = NULL \<or> neighbors N \<noteq> neighbors ?T) \<longrightarrow>
            neighbor_list m' q = neighbor_list exemplo q"
    by blast
  from *(3) ns have "ns' = [Ptr 3]" by simp
  with *(2,4) have 1: "neighbor_list m' (Ptr 1) = Some [Ptr 3, Ptr 5]"
    by (simp add: neighbor_list_def)
  from *(5) [rule_format, OF N] before have 2: "neighbor_list m' (Ptr 5) = Some [Ptr 3]"
    by simp
  from *(1) 1 2 show ?thesis by blast
qed

text \<open>
  Claim C7 as stated fails when \<open>n\<close> is \<open>t\<close> itself: the list of \<open>n\<close> is the list that
  grows.
\<close>

theorem adicionarVizinho_self_counterexample:
  "adicionarVizinho exemplo (Ptr 1) (Ptr 1) = Inr exemplo_laco \<and>
   neighbor_list exemplo (Ptr 1) = Some [Ptr 3] \<and>
   neighbor_list exemplo_laco (Ptr 1) = Some [Ptr 3, Ptr 1]"
proof -
  let ?T = "\<lparr>name = Ptr 2, owner = 1, armies = 5, nNeighbors = 1, neighbors = Ptr 7\<rparr>"
  have T: "territory_cells exemplo 1 = Some ?T" by (simp add: exemplo_def)
  have p: "neighbors ?T = Ptr 7" by simp
  have old: "territory_arrays exemplo 7 = Some [Ptr 3]" by (simp add: exemplo_def)
  have z: "0 \<le> sint (nNeighbors ?T)" by simp
  have max: "nNeighbors ?T \<noteq> INT_MAX" by (simp add: INT_MAX_def)
  have mem: "0 < budget exemplo" by (simp add: exemplo_def)
  have "adicionarVizinho exemplo (Ptr 1) (Ptr 1) = Inr exemplo_laco"
    using adicionarVizinho_Ptr [OF T p old z max mem, of "Ptr 1"]
    by (simp add: exemplo_laco_def) (simp add: exemplo_def)
  moreover have "neighbor_list exemplo (Ptr 1) = Some [Ptr 3]"
    by (simp add: neighbor_list_def neighbor_seq_def exemplo_def)
  moreover have "neighbor_list exemplo_laco (Ptr 1) = Some [Ptr 3, Ptr 1]"
    by (simp add: neighbor_list_def neighbor_seq_def exemplo_laco_def)
  ultimately show ?thesis by simp
qed

section \<open>Release\<close>

text \<open>Each statement of the second loop, the loop and the final \<open>free\<close> release missions only.\<close>

lemma releases_missions_refl: "releases_missions m m"
  by (simp add: releases_missions_def)

lemma releases_missions_trans:
  assumes "releases_missions m m1" "releases_missions m1 m2"
  shows "releases_missions m m2"
proof -
  have "text_cells m2 a = text_cells m a \<or>
        text_cells m2 a = None \<and> a \<in> description_blocks m" for a
    using assms unfolding releases_missions_def by (metis subsetD)
  with assms show ?thesis unfolding releases_missions_def by auto
qed

lemma releases_missions_free_text:
  assumes "free_text (Ptr a) m = Inr m'" "a \<in> description_blocks m"
  shows "releases_missions m m'"
  using assms
  by (auto simp: releases_missions_def description_blocks_def split: if_splits; blast)

lemma releases_missions_update:
  assumes "update_mission p (\<lambda>M. M\<lparr>description := NULL\<rparr>) m = Inr m'"
  shows "releases_missions m m'"
proof (cases p)
  case NULL
  with assms show ?thesis by simp
next
  case (Ptr b)
  with assms obtain M where "mission_cells m b = Some M"
    "m' = m\<lparr>mission_cells := (mission_cells m)(b \<mapsto> M\<lparr>description := NULL\<rparr>)\<rparr>"
    by (auto split: option.splits)
  then show ?thesis
    by (auto simp: releases_missions_def description_blocks_def split: if_splits; blast)
qed

lemma releases_missions_free_mission:
  assumes "free_mission p m = Inr m'"
  shows "releases_missions m m'"
  using assms
  by (cases p) (fastforce simp: releases_missions_def description_blocks_def split: if_splits)+

lemma releases_missions_write_slot:
  assumes "write_mission_slot p i v m = Inr m'"
  shows "releases_missions m m'"
  using assms
  by (cases p) (fastforce simp: releases_missions_def description_blocks_def split: option.splits if_splits)+

lemma releases_missions_free_array:
  assumes "free_mission_array p m = Inr m'"
  shows "releases_missions m m'"
  using assms
  by (cases p) (fastforce simp: releases_missions_def description_blocks_def split: if_splits)+

lemma liberar_missao_releases:
  assumes "liberar_missao missions j m = Inr m'"
  shows "releases_missions m m'"
proof -
  from assms obtain p where p: "read_mission_slot m missions j = Some p"
    by (cases "read_mission_slot m missions j") (auto simp: liberar_missao_def)
  show ?thesis
  proof (cases "p = NULL")
    case True
    with assms p show ?thesis by (simp add: liberar_missao_def releases_missions_refl)
  next
    case False
    with assms p obtain M where M: "load_mission m p = Some M"
      by (cases "load_mission m p") (auto simp: liberar_missao_def)
    with assms p False obtain m1 m2 where
      1: "(if description M \<noteq> NULL
           then andthen (free_text (description M) m)
                  (update_mission p (\<lambda>M. M\<lparr>description := NULL\<rparr>))
           else Inr m) = Inr m1"
      and 2: "free_mission p m1 = Inr m2"
      and 3: "write_mission_slot missions j NULL m2 = Inr m'"
      by (auto simp: liberar_missao_def andthen_eq_Inr)
    have a: "releases_missions m m1"
    proof (cases "description M")
      case NULL
      with 1 show ?thesis by (simp add: releases_missions_refl)
    next
      case (Ptr a)
      with 1 obtain m0 where f: "free_text (Ptr a) m = Inr m0"
        and u: "update_mission p (\<lambda>M. M\<lparr>description := NULL\<rparr>) m0 = Inr m1"
        by (auto simp: andthen_eq_Inr)
      from M Ptr have "a \<in> description_blocks m"
        by (cases p) (auto simp: description_blocks_def)
      from releases_missions_trans [OF releases_missions_free_text [OF f this]
          releases_missions_update [OF u]]
      show ?thesis .
    qed
    from releases_missions_trans [OF releases_missions_trans [OF a
          releases_missions_free_mission [OF 2]] releases_missions_write_slot [OF 3]]
    show ?thesis .
  qed
qed

lemma liberar_missoes_releases:
  "liberar_missoes missions n j m = Inr m' \<Longrightarrow> releases_missions m m'"
proof (induction missions n j m rule: liberar_missoes.induct)
  case (1 missions n j m)
  show ?case
  proof (cases "j < n")
    case False
    with "1.prems" show ?thesis
      by (subst (asm) liberar_missoes.simps) (simp add: releases_missions_refl)
  next
    case True
    with "1.prems" obtain m1 where
      b: "liberar_missao missions j m = Inr m1" and
      r: "liberar_missoes missions n (j + 1) m1 = Inr m'"
      by (subst (asm) liberar_missoes.simps) (auto split: sum.splits)
    from releases_missions_trans [OF liberar_missao_releases [OF b] "1.IH" [OF True b r]]
    show ?thesis .
  qed
qed

text \<open>The same for the first loop and the territories.\<close>

lemma releases_territories_refl: "releases_territories m m"
  by (simp add: releases_territories_def)

lemma releases_territories_trans:
  assumes "releases_territories m m1" "releases_territories m1 m2"
  shows "releases_territories m m2"
proof -
  have "text_cells m2 a = text_cells m a \<or>
        text_cells m2 a = None \<and> a \<in> name_blocks m" for a
    using assms unfolding releases_territories_def by (metis subsetD)
  with assms show ?thesis unfolding releases_territories_def by auto
qed

lemma releases_territories_free_text:
  assumes "free_text (Ptr a) m = Inr m'" "a \<in> name_blocks m"
  shows "releases_territories m m'"
  using assms
  by (auto simp: releases_territories_def name_blocks_def split: if_splits; blast)

lemma releases_territories_update:
  assumes "update_territory p f m = Inr m'" and "\<And>T. name (f T) = name T \<or> name (f T) = NULL"
  shows "releases_territories m m'"
proof -
  from update_territory_Inr [OF assms(1)] obtain b T where *:
    "p = Ptr b" "territory_cells m b = Some T"
    "m' = m\<lparr>territory_cells := (territory_cells m)(b \<mapsto> f T)\<rparr>" by blast
  have "name_blocks m' \<subseteq> name_blocks m"
  proof
    fix a assume "a \<in> name_blocks m'"
    then obtain q X where X: "territory_cells m' q = Some X" "name X = Ptr a"
      by (auto simp: name_blocks_def)
    show "a \<in> name_blocks m"
    proof (cases "q = b")
      case True
      with X * have "name (f T) = Ptr a" by simp
      with assms(2) [of T] have "name T = Ptr a" by auto
      with * show ?thesis by (auto simp: name_blocks_def)
    next
      case False
      with X * show ?thesis by (auto simp: name_blocks_def)
    qed
  qed
  with *(3) show ?thesis by (simp add: releases_territories_def)
qed

lemma releases_territories_free_territory:
  assumes "free_territory p m = Inr m'"
  shows "releases_territories m m'"
  using assms
  by (cases p) (fastforce simp: releases_territories_def name_blocks_def split: if_splits)+

lemma releases_territories_write_slot:
  assumes "write_territory_slot p i v m = Inr m'"
  shows "releases_territories m m'"
  using assms
  by (cases p)
    (fastforce simp: releases_territories_def name_blocks_def split: option.splits if_splits)+

lemma releases_territories_free_array:
  assumes "free_territory_array p m = Inr m'"
  shows "releases_territories m m'"
  using assms
  by (cases p) (fastforce simp: releases_territories_def name_blocks_def split: if_splits)+

lemma liberar_territorio_releases:
  assumes "liberar_territorio territories i m = Inr m'"
  shows "releases_territories m m'"
proof -
  from assms obtain t where t: "read_territory_slot m territories i = Some t"
    by (cases "read_territory_slot m territories i") (auto simp: liberar_territorio_def)
  show ?thesis
  proof (cases "t = NULL")
    case True
    with assms t show ?thesis by (simp add: liberar_territorio_def releases_territories_refl)
  next
    case False
    with assms t obtain T where T: "load_territory m t = Some T"
      by (cases "load_territory m t") (auto simp: liberar_territorio_def)
    with assms t False obtain m1 m2 m3 where
      1: "(if name T \<noteq> NULL
           then andthen (free_text (name T) m) (update_territory t (\<lambda>T. T\<lparr>name := NULL\<rparr>))
           else Inr m) = Inr m1"
      and 2: "(if neighbors T \<noteq> NULL
           then andthen (free_territory_array (neighbors T) m1)
                  (update_territory t (\<lambda>T. T\<lparr>neighbors := NULL\<rparr>))
           else Inr m1) = Inr m2"
      and 3: "free_territory t m2 = Inr m3"
      and 4: "write_territory_slot territories i NULL m3 = Inr m'"
      by (auto simp: liberar_territorio_def andthen_eq_Inr)
    have a: "releases_territories m m1"
    proof (cases "name T")
      case NULL
      with 1 show ?thesis by (simp add: releases_territories_refl)
    next
      case (Ptr a)
      with 1 obtain m0 where f: "free_text (Ptr a) m = Inr m0"
        and u: "update_territory t (\<lambda>T. T\<lparr>name := NULL\<rparr>) m0 = Inr m1"
        by (auto simp: andthen_eq_Inr)
      from T Ptr have "a \<in> name_blocks m"
        by (cases t) (auto simp: name_blocks_def)
      from releases_territories_free_text [OF f this]
      have x: "releases_territories m m0" .
      have y: "releases_territories m0 m1"
        by (rule releases_territories_update [OF u]) simp
      from releases_territories_trans [OF x y] show ?thesis .
    qed
    have b: "releases_territories m1 m2"
    proof (cases "neighbors T = NULL")
      case True
      with 2 show ?thesis by (simp add: releases_territories_refl)
    next
      case False
      with 2 obtain m0 where f: "free_territory_array (neighbors T) m1 = Inr m0"
        and u: "update_territory t (\<lambda>T. T\<lparr>neighbors := NULL\<rparr>) m0 = Inr m2"
        by (auto simp: andthen_eq_Inr)
      have y: "releases_territories m0 m2"
        by (rule releases_territories_update [OF u]) simp
      from releases_territories_trans [OF releases_territories_free_array [OF f] y]
      show ?thesis .
    qed
    from releases_territories_trans [OF releases_territories_trans [OF
          releases_territories_trans [OF a b] releases_territories_free_territory [OF 3]]
          releases_territories_write_slot [OF 4]]
    show ?thesis .
  qed
qed

lemma liberar_territorios_releases:
  "liberar_territorios territories n i m = Inr m' \<Longrightarrow> releases_territories m m'"
proof (induction territories n i m rule: liberar_territorios.induct)
  case (1 territories n i m)
  show ?case
  proof (cases "i < n")
    case False
    with "1.prems" show ?thesis
      by (subst (asm) liberar_territorios.simps) (simp add: releases_territories_refl)
  next
    case True
    with "1.prems" obtain m1 where
      b: "liberar_territorio territories i m = Inr m1" and
      r: "liberar_territorios territories n (i + 1) m1 = Inr m'"
      by (subst (asm) liberar_territorios.simps) (auto split: sum.splits)
    from releases_territories_trans [OF liberar_territorio_releases [OF b] "1.IH" [OF True b r]]
    show ?thesis .
  qed
qed

text \<open>Released with both registries, the example store holds nothing any more.\<close>

lemma liberarMemoria_exemplo:
  "liberarMemoria exemplo (Ptr 0) 3 (Ptr 11) 2 = Inr (vazio\<lparr>lim := 16, budget := 4\<rparr>)"
  by (simp add: liberarMemoria_def liberar_territorios.simps liberar_territorio_def
      liberar_missoes.simps liberar_missao_def exemplo_def vazio_def fun_eq_iff)

text \<open>
  Claim C9. With both registries absent \<open>liberarMemoria\<close> returns the store as it was,
  whatever the counts. With one registry absent the count given for it is not looked at,
  and the call is exactly the release of the other registry, errors included: the loop
  over its slots followed by the \<open>free\<close> of its array, run on the store as it was. A
  call that returns has then released nothing of the absent registry: with
  \<open>territories\<close> absent no territory and no array of territory pointers is touched, with
  \<open>missions\<close> absent no mission and no array of mission pointers; allocator and console
  are unchanged, and a text block is unchanged unless it was a description of a mission
  (a name of a territory), in which case it may be gone.
\<close>

theorem liberarMemoria_absent:
  "liberarMemoria m NULL nT NULL nM = Inr m \<and>
   liberarMemoria m NULL nT missions nM = liberarMemoria m NULL 0 missions nM \<and>
   liberarMemoria m territories nT NULL nM = liberarMemoria m territories nT NULL 0 \<and>
   liberarMemoria m NULL nT missions nM =
     (if missions = NULL then Inr m
      else andthen (liberar_missoes missions (sint nM) 0 m) (free_mission_array missions)) \<and>
   liberarMemoria m territories nT NULL nM =
     (if territories = NULL then Inr m
      else andthen (liberar_territorios territories (sint nT) 0 m)
             (free_territory_array territories)) \<and>
   (liberarMemoria m NULL nT missions nM = Inr m' \<longrightarrow>
      territory_cells m' = territory_cells m \<and> territory_arrays m' = territory_arrays m \<and>
      lim m' = lim m \<and> budget m' = budget m \<and> console m' = console m \<and>
      (\<forall>a. text_cells m' a = text_cells m a \<or>
           text_cells m' a = None \<and> a \<in> description_blocks m)) \<and>
   (liberarMemoria m territories nT NULL nM = Inr m'' \<longrightarrow>
      mission_cells m'' = mission_cells m \<and> mission_arrays m'' = mission_arrays m \<and>
      lim m'' = lim m \<and> budget m'' = budget m \<and> console m'' = console m \<and>
      (\<forall>a. text_cells m'' a = text_cells m a \<or>
           text_cells m'' a = None \<and> a \<in> name_blocks m))"
proof (intro conjI impI)
  show "liberarMemoria m NULL nT NULL nM = Inr m"
    by (simp add: liberarMemoria_def)
  show "liberarMemoria m NULL nT missions nM = liberarMemoria m NULL 0 missions nM"
    by (simp add: liberarMemoria_def)
  show "liberarMemoria m territories nT NULL nM = liberarMemoria m territories nT NULL 0"
    by (cases "liberar_territorios territories (sint nT) 0 m") (simp_all add: liberarMemoria_def)
  show "liberarMemoria m NULL nT missions nM =
     (if missions = NULL then Inr m
      else andthen (liberar_missoes missions (sint nM) 0 m) (free_mission_array missions))"
    by (simp add: liberarMemoria_def)
  show "liberarMemoria m territories nT NULL nM =
     (if territories = NULL then Inr m
      else andthen (liberar_territorios territories (sint nT) 0 m)
             (free_territory_array territories))"
    by (cases "andthen (liberar_territorios territories (sint nT) 0 m)
             (free_territory_array territories)") (simp_all add: liberarMemoria_def)
next
  assume run: "liberarMemoria m NULL nT missions nM = Inr m'"
  have "releases_missions m m'"
  proof (cases "missions = NULL")
    case True
    with run show ?thesis by (simp add: liberarMemoria_def releases_missions_refl)
  next
    case False
    with run obtain m1 where l: "liberar_missoes missions (sint nM) 0 m = Inr m1"
      and f: "free_mission_array missions m1 = Inr m'"
      by (auto simp: liberarMemoria_def andthen_eq_Inr)
    from releases_missions_trans [OF liberar_missoes_releases [OF l]
        releases_missions_free_array [OF f]]
    show ?thesis .
  qed
  then show "territory_cells m' = territory_cells m" "territory_arrays m' = territory_arrays m"
    "lim m' = lim m" "budget m' = budget m" "console m' = console m"
    "\<forall>a. text_cells m' a = text_cells m a \<or>
           text_cells m' a = None \<and> a \<in> description_blocks m"
    by (simp_all add: releases_missions_def)
next
  assume run: "liberarMemoria m territories nT NULL nM = Inr m''"
  have "releases_territories m m''"
  proof (cases "territories = NULL")
    case True
    with run show ?thesis by (simp add: liberarMemoria_def releases_territories_refl)
  next
    case False
    with run obtain m1 where l: "liberar_territorios territories (sint nT) 0 m = Inr m1"
      and f: "free_territory_array territories m1 = Inr m''"
      by (auto simp: liberarMemoria_def andthen_eq_Inr)
    from releases_territories_trans [OF liberar_territorios_releases [OF l]
        releases_territories_free_array [OF f]]
    show ?thesis .
  qed
  then show "mission_cells m'' = mission_cells m" "mission_arrays m'' = mission_arrays m"
    "lim m'' = lim m" "budget m'' = budget m" "console m'' = console m"
    "\<forall>a. text_cells m'' a = text_cells m a \<or>
           text_cells m'' a = None \<and> a \<in> name_blocks m"
    by (simp_all add: releases_territories_def)
qed

lemma liberar_missoes_exemplo:
  "liberarMemoria exemplo NULL 3 (Ptr 11) 2 = Inr exemplo_sem_missoes"
  by (simp add: liberarMemoria_def liberar_missoes.simps liberar_missao_def exemplo_def
      exemplo_sem_missoes_def fun_eq_iff)

lemma liberar_territorios_exemplo:
  "liberarMemoria exemplo (Ptr 0) 3 NULL 0 = Inr exemplo_sem_territorios"
  by (simp add: liberarMemoria_def liberar_territorios.simps liberar_territorio_def exemplo_def
      exemplo_sem_territorios_def fun_eq_iff)

theorem liberarMemoria_absent_witness:
  "liberarMemoria exemplo NULL 3 NULL 2 = Inr exemplo \<and>
   liberarMemoria exemplo NULL 3 (Ptr 11) 2 = Inr exemplo_sem_missoes \<and>
   territory_cells exemplo_sem_missoes = territory_cells exemplo \<and>
   territory_arrays exemplo_sem_missoes = territory_arrays exemplo \<and>
   text_cells exemplo_sem_missoes 2 = text_cells exemplo 2 \<and>
   text_cells exemplo_sem_missoes 13 = None \<and>
   liberarMemoria exemplo (Ptr 0) 3 NULL 2 = Inr exemplo_sem_territorios \<and>
   mission_cells exemplo_sem_territorios = mission_cells exemplo \<and>
   mission_arrays exemplo_sem_territorios = mission_arrays exemplo \<and>
   text_cells exemplo_sem_territorios 13 = text_cells exemplo 13 \<and>
   text_cells exemplo_sem_territorios 2 = None"
proof -
  note 1 = liberar_missoes_exemplo and 2 = liberar_territorios_exemplo
  note t = liberarMemoria_absent [where m = exemplo and nT = 3 and nM = 2
      and missions = "Ptr 11" and m' = exemplo_sem_missoes
      and territories = "Ptr 0" and m'' = exemplo_sem_territorios]
  have a: "2 \<notin> description_blocks exemplo"
    by (auto simp: description_blocks_def exemplo_def split: if_splits)
  have b: "13 \<notin> name_blocks exemplo"
    by (auto simp: name_blocks_def exemplo_def split: if_splits)
  have c: "text_cells exemplo_sem_missoes 13 = None"
    "text_cells exemplo_sem_territorios 2 = None"
    by (simp_all add: exemplo_sem_missoes_def exemplo_sem_territorios_def)
  from t 1 have m1: "territory_cells exemplo_sem_missoes = territory_cells exemplo"
    "territory_arrays exemplo_sem_missoes = territory_arrays exemplo"
    "\<forall>a. text_cells exemplo_sem_missoes a = text_cells exemplo a \<or>
       text_cells exemplo_sem_missoes a = None \<and> a \<in> description_blocks exemplo"
    by blast+
  from t 2 have run2: "liberarMemoria exemplo (Ptr 0) 3 NULL 2 = Inr exemplo_sem_territorios"
    by simp
  with t have m2: "mission_cells exemplo_sem_territorios = mission_cells exemplo"
    "mission_arrays exemplo_sem_territorios = mission_arrays exemplo"
    "\<forall>a. text_cells exemplo_sem_territorios a = text_cells exemplo a \<or>
       text_cells exemplo_sem_territorios a = None \<and> a \<in> name_blocks exemplo"
    by blast+
  from m1(3) a have x: "text_cells exemplo_sem_missoes 2 = text_cells exemplo 2" by blast
  from m2(3) b have y: "text_cells exemplo_sem_territorios 13 = text_cells exemplo 13" by blast
  from t have z: "liberarMemoria exemplo NULL 3 NULL 2 = Inr exemplo" by blast
  from z 1 m1(1,2) x c run2 m2(1,2) y show ?thesis by simp
qed

end
